theory Spec2Isabelle
  imports Complex_Main "HOL-Library.Sublist"
begin

section \<open>GST-based business assessment: the data model\<close>

text \<open>
  The program is \<^verbatim>\<open>src/streamlit_app.py\<close>. Its three classes are embedded as pure
  functions: \<^verbatim>\<open>GSTDataAnalyzer\<close> (parsers, monthly analysis, aggregate metrics),
  \<^verbatim>\<open>BusinessEligibilityEngine\<close> and \<^verbatim>\<open>LoanAssessmentEngine\<close>.

  Numbers. Python's \<^verbatim>\<open>int\<close> is \<open>int\<close>. Amounts, rates and percentages are
  \<^verbatim>\<open>float\<close> (or numpy scalars) in the program; they are modelled as exact rationals
  \<open>rat\<close>, so every statement below about them is a statement modulo floating-point
  rounding.

  Exceptions are values: a function that can raise returns \<open>py_error + 'a\<close>, with
  \<open>Inl\<close> the exception.
\<close>

datatype py_error = KeyError string | ValueError string | TypeError string

text \<open>
  A cell of a pandas \<^verbatim>\<open>DataFrame\<close>: a number, a text, or a missing value
  (\<^verbatim>\<open>NaN\<close>).
\<close>

datatype cell = Num rat | Str string | NaN

text \<open>
  The dictionary built by \<^verbatim>\<open>analyze_monthly_data\<close> (lines 62--77), one field per
  key. The keys \<^verbatim>\<open>total_sales\<close> and \<^verbatim>\<open>total_purchases\<close> also occur in the
  aggregate dictionary; here they carry the prefix \<open>m_\<close>.
\<close>

record monthly_summary =
  month :: string
  b2b_transactions :: int
  b2c_transactions :: int
  purchase_transactions :: int
  b2b_sales :: rat
  b2c_sales :: rat
  m_total_sales :: rat
  m_total_purchases :: rat
  gst_collected :: rat
  tax_rates_used :: "cell list"
  interstate_sales :: rat
  intrastate_sales :: rat
  unique_customers :: int

text \<open>The dictionary returned by \<^verbatim>\<open>calculate_aggregate_metrics\<close> (lines 169--182).\<close>

record business_metrics =
  annual_turnover :: rat
  total_sales :: rat
  total_purchases :: rat
  avg_monthly_sales :: rat
  total_gst_collected :: rat
  b2b_percentage :: rat
  b2c_percentage :: rat
  filing_frequency :: int
  avg_transactions_per_month :: rat
  uses_standard_rates :: bool
  profit_margin_estimate :: rat
  gst_compliance_score :: int

section \<open>The metrics aggregator\<close>

text \<open>Line 166: \<^verbatim>\<open>standard_rates = [0, 5, 12, 18, 28]\<close>.\<close>

definition standard_rates :: "cell list" where
  "standard_rates = [Num 0, Num 5, Num 12, Num 18, Num 28]"

text \<open>
  \<^verbatim>\<open>calculate_aggregate_metrics\<close> (lines 130--182). The empty dictionary returned
  for an empty list (line 134) is \<open>None\<close>. The divisions of lines 140, 144 and 156 are by
  \<^verbatim>\<open>len(monthly_analyses)\<close>, which is positive past line 134; the divisions by
  \<^verbatim>\<open>total_sales\<close> of lines 150 and 180 are guarded by \<^verbatim>\<open>total_sales > 0\<close>.
\<close>

definition calculate_aggregate_metrics :: "monthly_summary list \<Rightarrow> business_metrics option" where
  "calculate_aggregate_metrics monthly_analyses =
    (if monthly_analyses = [] then None
     else
       let total_sales = sum_list (map m_total_sales monthly_analyses);
           total_purchases = sum_list (map m_total_purchases monthly_analyses);
           total_gst_collected = sum_list (map gst_collected monthly_analyses);
           avg_monthly_sales = total_sales / of_nat (length monthly_analyses);
           months_of_data = length monthly_analyses;
           annual_turnover = (total_sales / of_nat months_of_data) * 12;
           b2b_total = sum_list (map b2b_sales monthly_analyses);
           b2c_total = sum_list (map b2c_sales monthly_analyses);
           b2b_percentage = (if total_sales > 0 then b2b_total / total_sales * 100 else 0);
           avg_transactions_per_month =
             of_int (sum_list (map (\<lambda>m. b2b_transactions m + b2c_transactions m) monthly_analyses))
               / of_nat (length monthly_analyses);
           filing_frequency = int (length monthly_analyses);
           all_rates = concat (map tax_rates_used monthly_analyses);
           uses_standard_rates = list_all (\<lambda>rate. rate \<in> set standard_rates) (remdups all_rates)
       in Some \<lparr>
           annual_turnover = annual_turnover,
           total_sales = total_sales,
           total_purchases = total_purchases,
           avg_monthly_sales = avg_monthly_sales,
           total_gst_collected = total_gst_collected,
           b2b_percentage = b2b_percentage,
           b2c_percentage = 100 - b2b_percentage,
           filing_frequency = filing_frequency,
           avg_transactions_per_month = avg_transactions_per_month,
           uses_standard_rates = uses_standard_rates,
           profit_margin_estimate =
             (if total_sales > 0
              then max 5 (min 25 ((total_sales - total_purchases) / total_sales * 100))
              else 10),
           gst_compliance_score =
             min 100 (filing_frequency * 15 + (if uses_standard_rates then 50 else 0))
         \<rparr>)"

section \<open>Business profile and dates\<close>

text \<open>
  The dictionary \<^verbatim>\<open>business_data\<close> assembled at lines 571--578: every key is present
  and every value is a string. The two engines read this dictionary and the metrics with
  \<^verbatim>\<open>.get\<close> and a default; a default stands for an absent key, which neither record
  has.
\<close>

record business_profile =
  gstin :: string
  business_name :: string
  business_type :: string
  business_category :: string
  incorporation_date :: string
  state :: string

text \<open>
  What \<^verbatim>\<open>pd.to_datetime\<close> returns for a string: a timestamp without time zone, a
  timestamp with a time zone, or \<^verbatim>\<open>NaT\<close>; the integer is the number of nanoseconds
  since 1970-01-01T00:00:00. The library function itself is not part of the repository: it
  is a parameter \<open>to_datetime\<close> of the functions that call it, and it raises by returning
  \<open>Inl\<close>.
\<close>

datatype datetime = Timestamp int | TimestampTZ int | NaT

type_synonym date_parser = "string \<Rightarrow> py_error + datetime"

definition ns_per_day :: int where
  "ns_per_day = 86400 * 1000000000"

text \<open>
  Line 270: \<^verbatim>\<open>min_date = pd.to_datetime('2016-04-01')\<close>, the constant timestamp
  2016-04-01T00:00:00, which is day 16892 after 1970-01-01.
\<close>

definition min_date :: datetime where
  "min_date = Timestamp (16892 * ns_per_day)"

text \<open>
  \<^verbatim>\<open>a >= b\<close> on pandas timestamps: every comparison with \<^verbatim>\<open>NaT\<close> is false, and
  comparing a timestamp that has a time zone with one that has none raises
  \<^verbatim>\<open>TypeError\<close>.
\<close>

fun datetime_ge :: "datetime \<Rightarrow> datetime \<Rightarrow> py_error + bool" where
  "datetime_ge NaT _ = Inr False"
| "datetime_ge _ NaT = Inr False"
| "datetime_ge (Timestamp a) (Timestamp b) = Inr (a \<ge> b)"
| "datetime_ge (TimestampTZ a) (TimestampTZ b) = Inr (a \<ge> b)"
| "datetime_ge (Timestamp a) (TimestampTZ b) =
     Inl (TypeError ''Cannot compare tz-naive and tz-aware timestamps'')"
| "datetime_ge (TimestampTZ a) (Timestamp b) =
     Inl (TypeError ''Cannot compare tz-naive and tz-aware timestamps'')"

text \<open>Sequencing of computations that may raise: the first exception ends the run.\<close>

definition bind_err :: "py_error + 'a \<Rightarrow> ('a \<Rightarrow> py_error + 'b) \<Rightarrow> py_error + 'b" where
  "bind_err m f = (case m of Inl e \<Rightarrow> Inl e | Inr x \<Rightarrow> f x)"

text \<open>\<^verbatim>\<open>d[k]\<close> on a dictionary held as an association list.\<close>

definition getitem :: "(string \<times> 'v) list \<Rightarrow> string \<Rightarrow> py_error + 'v" where
  "getitem d k = (case map_of d k of None \<Rightarrow> Inl (KeyError k) | Some v \<Rightarrow> Inr v)"

section \<open>The scheme eligibility engine\<close>

text \<open>\<^verbatim>\<open>self.schemes\<close> (lines 186--223): a dictionary of dictionaries.\<close>

definition schemes :: "(string \<times> (string \<times> string) list) list" where
  "schemes = [
    (''advance_authorisation'',
      [(''name'', ''Advance Authorisation Scheme (Export Incentive)''),
       (''url'', ''https://www.dgft.gov.in/advance-authorisation'')]),
    (''epcg'',
      [(''name'', ''Export Promotion Capital Goods (EPCG) Scheme''),
       (''url'', ''https://www.dgft.gov.in/epcg'')]),
    (''startup_tax_benefits'',
      [(''name'', ''Startup Tax Benefits''),
       (''url'', ''https://startupindia.gov.in/'')]),
    (''pmmy_loans'',
      [(''name'', ''MSME Loans under PMMY''),
       (''url'', ''https://www.mudra.org.in/'')]),
    (''nsic_support'',
      [(''name'', ''NSIC Marketing & Credit Support''),
       (''url'', ''https://www.nsic.co.in/'')]),
    (''digital_lending'',
      [(''name'', ''Digital Lending Using GST Data''),
       (''url'', ''Partner with NBFCs or Fintech platforms'')]),
    (''gem_platform'',
      [(''name'', ''Government e-Marketplace (GeM)''),
       (''url'', ''https://gem.gov.in/'')]),
    (''income_tax_deduction'',
      [(''name'', ''Income Tax Profit Deduction for Startups''),
       (''url'', ''Claim deduction in Income Tax Return (ITR) filing'')]),
    (''gst_composition'',
      [(''name'', ''GST Composition Scheme''),
       (''url'', ''Opt-in via GST portal during registration or return filing'')])]"

record eligibility_verdict =
  eligible :: bool
  reason :: string
  scheme_name :: string
  url :: string

text \<open>
  The dictionary literal that every branch of \<^verbatim>\<open>assess_scheme_eligibility\<close> stores:
  the flag, the reason, and the name and url looked up in \<^verbatim>\<open>self.schemes\<close>.
\<close>

definition verdict :: "string \<Rightarrow> bool \<Rightarrow> string \<Rightarrow> py_error + eligibility_verdict" where
  "verdict key e r =
     bind_err (getitem schemes key) (\<lambda>s.
     bind_err (getitem s ''name'') (\<lambda>n.
     bind_err (getitem s ''url'') (\<lambda>u.
       Inr \<lparr> eligible = e, reason = r, scheme_name = n, url = u \<rparr>)))"

text \<open>
  \<^verbatim>\<open>str.lower\<close> (line 327) is a method of the language's string type, not code of the
  repository, and it lowers letters outside ASCII as well: it is a parameter
  \<open>str_lower\<close> of the functions that depend on it. On a string of ASCII characters it
  is \<open>ascii_lower\<close>, which turns the capital letters \<^verbatim>\<open>A\<close> to \<^verbatim>\<open>Z\<close> (codes 65
  to 90) into the small ones and leaves every other character.
\<close>

definition ascii_lower_char :: "char \<Rightarrow> char" where
  "ascii_lower_char c =
     (let n = (of_char c :: nat) in if 65 \<le> n \<and> n \<le> 90 then char_of (n + 32) else c)"

definition ascii_lower :: "string \<Rightarrow> string" where
  "ascii_lower s = map ascii_lower_char s"

text \<open>
  Two characters that are equal up to the case of an ASCII letter. This is the reading of
  ``case-insensitively'' against which the threshold is stated below; it is not used by
  the functions of the program.
\<close>

definition same_letter :: "char \<Rightarrow> char \<Rightarrow> bool" where
  "same_letter c d =
     (let m = (of_char c :: nat); n = (of_char d :: nat)
      in m = n \<or> (65 \<le> m \<and> m \<le> 90 \<and> n = m + 32) \<or> (65 \<le> n \<and> n \<le> 90 \<and> m = n + 32))"

text \<open>\<^verbatim>\<open>f"{n:,}"\<close> for a non-negative integer: decimal digits in groups of three.\<close>

fun digits :: "nat \<Rightarrow> string" where
  "digits n = (if n < 10 then [char_of (48 + n)] else digits (n div 10) @ [char_of (48 + n mod 10)])"

fun group3 :: "string \<Rightarrow> string" where
  "group3 s =
     (if length s \<le> 3 then s
      else group3 (take (length s - 3) s) @ '','' @ drop (length s - 3) s)"

declare digits.simps [simp del] group3.simps [simp del]

definition format_thousands :: "int \<Rightarrow> string" where
  "format_thousands n = group3 (digits (nat n))"

text \<open>The rupee sign U+20B9 of the reason at line 337, in UTF-8.\<close>

definition rupee :: string where
  "rupee = [char_of (0xE2 :: nat), char_of (0x82 :: nat), char_of (0xB9 :: nat)]"

text \<open>Lines 328--329.\<close>

definition ne_hill_states :: "string list" where
  "ne_hill_states = [''arunachal pradesh'', ''assam'', ''manipur'', ''meghalaya'', ''mizoram'',
     ''nagaland'', ''sikkim'', ''tripura'', ''himachal pradesh'', ''uttarakhand'']"

text \<open>
  Line 331. Python's \<^verbatim>\<open>ne_state in state\<close> on strings is the contiguous-sublist test
  \<^const>\<open>sublist\<close>.
\<close>

definition threshold :: "(string \<Rightarrow> string) \<Rightarrow> business_profile \<Rightarrow> int" where
  "threshold str_lower business_data =
     (if list_ex (\<lambda>ne_state. sublist ne_state (str_lower (state business_data))) ne_hill_states
      then 7500000 else 15000000)"

text \<open>
  \<^verbatim>\<open>assess_scheme_eligibility\<close> (lines 225--349) fills the dictionary
  \<^verbatim>\<open>results\<close> in six blocks, one per scheme key. Each block is a function here,
  giving the value stored under its key; the function itself follows, storing them in the
  order of the source.
\<close>

text \<open>Lines 234--248.\<close>

definition advance_authorisation :: "business_profile \<Rightarrow> py_error + eligibility_verdict" where
  "advance_authorisation business_data =
     (if business_type business_data = ''exporter''
      then verdict ''advance_authorisation'' True
             ''Eligible as registered exporter with GST data''
      else verdict ''advance_authorisation'' False ''Only available for exporters'')"

text \<open>Lines 250--265.\<close>

definition pmmy_loans ::
  "business_profile \<Rightarrow> business_metrics \<Rightarrow> py_error + eligibility_verdict" where
  "pmmy_loans business_data gst_metrics =
     (if business_type business_data \<in> set [''msme'', ''manufacturer'', ''trader'']
      then
        (let loan_category =
               (if annual_turnover gst_metrics < 1000000 then ''Shishu''
                else if annual_turnover gst_metrics < 5000000 then ''Kishore''
                else ''Tarun'')
         in verdict ''pmmy_loans'' True
              (''Eligible for PMMY '' @ loan_category @ '' loan based on turnover''))
      else verdict ''pmmy_loans'' False ''Must be MSME/manufacturer/trader'')"

text \<open>
  Lines 267--292. The date parse of line 269 and the comparison of line 272 are not inside
  any \<^verbatim>\<open>try\<close>: an exception of either leaves \<^verbatim>\<open>assess_scheme_eligibility\<close>.
\<close>

definition startup_tax_benefits ::
  "date_parser \<Rightarrow> business_profile \<Rightarrow> business_metrics \<Rightarrow> py_error + eligibility_verdict" where
  "startup_tax_benefits to_datetime business_data gst_metrics =
     (if business_type business_data = ''startup'' then
        bind_err (to_datetime (incorporation_date business_data)) (\<lambda>inc_date.
        bind_err (datetime_ge inc_date min_date) (\<lambda>ge.
          if ge \<and> annual_turnover gst_metrics < 1000000000
          then verdict ''startup_tax_benefits'' True ''Eligible startup with turnover < 100 Cr''
          else verdict ''startup_tax_benefits'' False
                 ''Must be incorporated after Apr 2016 with turnover < 100 Cr''))
      else verdict ''startup_tax_benefits'' False ''Only for registered startups'')"

text \<open>Lines 294--308.\<close>

definition digital_lending :: "business_metrics \<Rightarrow> py_error + eligibility_verdict" where
  "digital_lending gst_metrics =
     (if gst_compliance_score gst_metrics > 60 \<and> annual_turnover gst_metrics > 500000
      then verdict ''digital_lending'' True ''Good GST compliance with sufficient turnover''
      else verdict ''digital_lending'' False
             ''Need better GST compliance and minimum turnover'')"

text \<open>Lines 310--324.\<close>

definition gem_platform :: "business_metrics \<Rightarrow> py_error + eligibility_verdict" where
  "gem_platform gst_metrics =
     (if filing_frequency gst_metrics \<ge> 3
      then verdict ''gem_platform'' True ''Regular GST filing history available''
      else verdict ''gem_platform'' False ''Need consistent GST filing history'')"

text \<open>Lines 326--347.\<close>

definition gst_composition ::
  "(string \<Rightarrow> string) \<Rightarrow> business_profile \<Rightarrow> business_metrics
     \<Rightarrow> py_error + eligibility_verdict" where
  "gst_composition str_lower business_data gst_metrics =
     (if annual_turnover gst_metrics < of_int (threshold str_lower business_data)
         \<and> business_type business_data \<in> set [''manufacturer'', ''trader'', ''restaurant'']
      then verdict ''gst_composition'' True
             (''Turnover below threshold ('' @ rupee
                @ format_thousands (threshold str_lower business_data) @ '')'')
      else verdict ''gst_composition'' False
             ''Turnover exceeds threshold or ineligible business type'')"

text \<open>
  \<^verbatim>\<open>assess_scheme_eligibility\<close>: the dictionary \<^verbatim>\<open>results\<close> is a map from scheme
  key to verdict.
\<close>

definition assess_scheme_eligibility ::
  "date_parser \<Rightarrow> (string \<Rightarrow> string) \<Rightarrow> business_profile \<Rightarrow> business_metrics
     \<Rightarrow> py_error + (string \<rightharpoonup> eligibility_verdict)" where
  "assess_scheme_eligibility to_datetime str_lower business_data gst_metrics =
     bind_err (advance_authorisation business_data) (\<lambda>v1.
     bind_err (pmmy_loans business_data gst_metrics) (\<lambda>v2.
     bind_err (startup_tax_benefits to_datetime business_data gst_metrics) (\<lambda>v3.
     bind_err (digital_lending gst_metrics) (\<lambda>v4.
     bind_err (gem_platform gst_metrics) (\<lambda>v5.
     bind_err (gst_composition str_lower business_data gst_metrics) (\<lambda>v6.
       Inr [''advance_authorisation'' \<mapsto> v1, ''pmmy_loans'' \<mapsto> v2,
            ''startup_tax_benefits'' \<mapsto> v3, ''digital_lending'' \<mapsto> v4,
            ''gem_platform'' \<mapsto> v5, ''gst_composition'' \<mapsto> v6]))))))"

section \<open>The loan assessment engine\<close>

datatype credit_grade = Excellent | Good | Fair | Poor

text \<open>\<^verbatim>\<open>self.base_interest_rates\<close> (lines 353--358).\<close>

fun base_interest_rates :: "credit_grade \<Rightarrow> rat" where
  "base_interest_rates Excellent = 9"
| "base_interest_rates Good = 23 / 2"
| "base_interest_rates Fair = 14"
| "base_interest_rates Poor = 35 / 2"

text \<open>Lines 368--379: business turnover, 0 to 200 points.\<close>

definition turnover_points :: "rat \<Rightarrow> int" where
  "turnover_points turnover =
     (if turnover > 50000000 then 200
      else if turnover > 10000000 then 150
      else if turnover > 5000000 then 100
      else if turnover > 1000000 then 75
      else if turnover > 500000 then 50
      else 0)"

text \<open>Lines 381--390: filing consistency, 0 to 100 points.\<close>

definition filing_points :: "int \<Rightarrow> int" where
  "filing_points frequency =
     (if frequency \<ge> 12 then 100
      else if frequency \<ge> 6 then 75
      else if frequency \<ge> 3 then 50
      else if frequency \<ge> 1 then 25
      else 0)"

text \<open>
  Lines 392--405: business vintage. \<open>now\<close> is the value of \<^verbatim>\<open>datetime.now()\<close> at
  the call, in nanoseconds since 1970-01-01T00:00:00. The difference of a time and a
  timestamp has \<^verbatim>\<open>.days\<close>, the number of whole days (rounded down), and
  \<^verbatim>\<open>365.25\<close> is \<open>1461 / 4\<close>. The bare \<^verbatim>\<open>except\<close> gives 25 points whenever
  the parse raises, and whenever the subtraction raises, which it does for a timestamp that
  has a time zone. For \<^verbatim>\<open>NaT\<close> the difference is \<^verbatim>\<open>NaT\<close>, its \<^verbatim>\<open>.days\<close> is
  \<^verbatim>\<open>nan\<close>, every comparison is false and no points are added.
\<close>

definition vintage_points :: "date_parser \<Rightarrow> int \<Rightarrow> business_profile \<Rightarrow> int" where
  "vintage_points to_datetime now business_data =
     (case to_datetime (incorporation_date business_data) of
        Inl e \<Rightarrow> 25
      | Inr (TimestampTZ t) \<Rightarrow> 25
      | Inr NaT \<Rightarrow> 0
      | Inr (Timestamp t) \<Rightarrow>
          (let days = (now - t) div ns_per_day;
               years_in_business = (of_int days :: rat) / (1461 / 4)
           in if years_in_business > 5 then 100
              else if years_in_business > 3 then 75
              else if years_in_business > 1 then 50
              else if years_in_business > 1 / 2 then 25
              else 0))"

text \<open>Lines 407--416: business model stability, 25 to 100 points.\<close>

definition stability_points :: "rat \<Rightarrow> int" where
  "stability_points percentage =
     (if percentage > 70 then 100
      else if percentage > 40 then 75
      else if percentage > 10 then 50
      else 25)"

text \<open>Lines 421--429.\<close>

definition grade_of :: "int \<Rightarrow> credit_grade" where
  "grade_of score =
     (if score \<ge> 750 then Excellent
      else if score \<ge> 650 then Good
      else if score \<ge> 500 then Fair
      else Poor)"

text \<open>\<^verbatim>\<open>calculate_credit_score\<close> (lines 360--431).\<close>

definition calculate_credit_score ::
  "date_parser \<Rightarrow> int \<Rightarrow> business_profile \<Rightarrow> business_metrics \<Rightarrow> int \<times> credit_grade" where
  "calculate_credit_score to_datetime now business_data gst_metrics =
     (let score = 300;
          score = score + min 200 (gst_compliance_score gst_metrics * 2);
          score = score + turnover_points (annual_turnover gst_metrics);
          score = score + filing_points (filing_frequency gst_metrics);
          score = score + vintage_points to_datetime now business_data;
          score = score + stability_points (b2b_percentage gst_metrics);
          score = min score 900
      in (score, grade_of score))"

text \<open>
  The dictionary returned by \<^verbatim>\<open>calculate_loan_eligibility\<close> (lines 511--523); its key
  \<^verbatim>\<open>annual_turnover\<close> is the field \<open>loan_annual_turnover\<close>.
\<close>

record loan_assessment =
  credit_score :: int
  credit_grade :: credit_grade
  max_loan_amount :: rat
  recommended_amount :: rat
  interest_rate :: rat
  max_tenure_years :: int
  monthly_emi :: rat
  total_interest :: rat
  approval_probability :: rat
  loan_annual_turnover :: rat
  profit_margin :: rat

text \<open>\<^verbatim>\<open>loan_multipliers\<close> (lines 441--446).\<close>

fun loan_multipliers :: "credit_grade \<Rightarrow> rat" where
  "loan_multipliers Excellent = 30 / 100"
| "loan_multipliers Good = 25 / 100"
| "loan_multipliers Fair = 20 / 100"
| "loan_multipliers Poor = 15 / 100"

text \<open>Lines 457--478: the interest rate, from the grade's base rate.\<close>

definition final_interest_rate :: "credit_grade \<Rightarrow> string \<Rightarrow> rat \<Rightarrow> int \<Rightarrow> rat" where
  "final_interest_rate grade btype pmargin gst_compliance =
     (let base_rate = base_interest_rates grade;
          base_rate = (if btype = ''startup'' then base_rate + 3 / 2
                       else if btype = ''exporter'' then base_rate - 1 / 2
                       else base_rate);
          base_rate = (if pmargin > 20 then base_rate - 1 / 2
                       else if pmargin < 5 then base_rate + 1
                       else base_rate);
          base_rate = (if gst_compliance > 80 then base_rate - 1 / 2
                       else if gst_compliance < 50 then base_rate + 1
                       else base_rate)
      in max base_rate (17 / 2))"

text \<open>\<^verbatim>\<open>calculate_loan_eligibility\<close> (lines 433--523).\<close>

definition calculate_loan_eligibility ::
  "date_parser \<Rightarrow> int \<Rightarrow> business_profile \<Rightarrow> business_metrics \<Rightarrow> loan_assessment" where
  "calculate_loan_eligibility to_datetime now business_data gst_metrics =
     (let (credit_score, credit_grade) =
            calculate_credit_score to_datetime now business_data gst_metrics;
          annual_turnover = annual_turnover gst_metrics;
          profit_margin = profit_margin_estimate gst_metrics;
          max_loan_amount = annual_turnover * loan_multipliers credit_grade;
          business_type = business_type business_data;
          max_loan_amount = (if business_type = ''startup'' then max_loan_amount * (8 / 10)
                             else if business_type = ''exporter'' then max_loan_amount * (12 / 10)
                             else max_loan_amount);
          gst_compliance = gst_compliance_score gst_metrics;
          final_interest_rate =
            final_interest_rate credit_grade business_type profit_margin gst_compliance;
          max_tenure_years = (if credit_score > 700 then 7
                              else if credit_score > 600 then 5
                              else (3 :: int));
          recommended_amount = min max_loan_amount 1000000;
          monthly_rate = final_interest_rate / (12 * 100);
          tenure_months = max_tenure_years * 12;
          emi = (if monthly_rate > 0
                 then recommended_amount * monthly_rate * (1 + monthly_rate) ^ nat tenure_months
                        / ((1 + monthly_rate) ^ nat tenure_months - 1)
                 else recommended_amount / of_int tenure_months);
          approval_factors =
            [min 30 (of_int credit_score / 25),
             min 25 (of_int gst_compliance / 4),
             min 20 (annual_turnover / 250000),
             min 15 profit_margin,
             (if filing_frequency gst_metrics \<ge> 6 then 10 else 5)];
          approval_probability = min 95 (sum_list approval_factors)
      in \<lparr> credit_score = credit_score,
           credit_grade = credit_grade,
           max_loan_amount = max_loan_amount,
           recommended_amount = recommended_amount,
           interest_rate = final_interest_rate,
           max_tenure_years = max_tenure_years,
           monthly_emi = emi,
           total_interest = (emi * of_int tenure_months) - recommended_amount,
           approval_probability = approval_probability,
           loan_annual_turnover = annual_turnover,
           profit_margin = profit_margin \<rparr>)"

section \<open>Tables, the parsers and the monthly analysis\<close>

text \<open>
  A pandas \<^verbatim>\<open>DataFrame\<close>: the length of its index and its columns in order, each a
  name with one cell per row. \<^verbatim>\<open>pd.DataFrame()\<close> has no rows and no columns, and
  \<^verbatim>\<open>df.empty\<close> holds when either axis has length 0.
\<close>

record dataframe =
  nrows :: nat
  cols :: "(string \<times> cell list) list"

definition empty_dataframe :: dataframe where
  "empty_dataframe = \<lparr> nrows = 0, cols = [] \<rparr>"

definition df_empty :: "dataframe \<Rightarrow> bool" where
  "df_empty df = (nrows df = 0 \<or> cols df = [])"

definition columns :: "dataframe \<Rightarrow> string list" where
  "columns df = map fst (cols df)"

text \<open>\<^verbatim>\<open>df[name]\<close>: raises \<^verbatim>\<open>KeyError\<close> when there is no such column.\<close>

definition df_getitem :: "dataframe \<Rightarrow> string \<Rightarrow> py_error + cell list" where
  "df_getitem df name = getitem (cols df) name"

text \<open>
  Arithmetic on the cells of a column after \<^verbatim>\<open>fillna(0)\<close>: a missing value counts as
  0. The summed columns of a GST export are numeric; a text cell in one of them is
  reported as \<^verbatim>\<open>TypeError\<close>. Sums and products are exact: the rounding of a
  \<^verbatim>\<open>float64\<close> column and the wrap-around of an \<^verbatim>\<open>int64\<close> column beyond
  \<open>2 ^ 63\<close> are outside this model, and no statement below depends on the value of a
  sum of cells.
\<close>

fun as_number :: "cell \<Rightarrow> py_error + rat" where
  "as_number (Num x) = Inr x"
| "as_number NaN = Inr 0"
| "as_number (Str s) = Inl (TypeError ''unsupported operand type(s)'')"

text \<open>\<^verbatim>\<open>series.fillna(0).sum()\<close>.\<close>

fun fillna_sum :: "cell list \<Rightarrow> py_error + rat" where
  "fillna_sum [] = Inr 0"
| "fillna_sum (c # cs) =
     bind_err (as_number c) (\<lambda>x. bind_err (fillna_sum cs) (\<lambda>y. Inr (x + y)))"

text \<open>\<^verbatim>\<open>(a.fillna(0) * b.fillna(0) / 100).sum()\<close> for two columns of one table.\<close>

fun tax_sum :: "cell list \<Rightarrow> cell list \<Rightarrow> py_error + rat" where
  "tax_sum (a # as) (b # bs) =
     bind_err (as_number a) (\<lambda>x. bind_err (as_number b) (\<lambda>r.
     bind_err (tax_sum as bs) (\<lambda>y. Inr (x * r / 100 + y))))"
| "tax_sum _ _ = Inr 0"

text \<open>\<^verbatim>\<open>series.dropna().unique()\<close> and \<^verbatim>\<open>series.nunique()\<close>.\<close>

definition dropna_unique :: "cell list \<Rightarrow> cell list" where
  "dropna_unique s = remdups (filter (\<lambda>c. c \<noteq> NaN) s)"

definition nunique :: "cell list \<Rightarrow> int" where
  "nunique s = int (length (dropna_unique s))"

text \<open>
  \<^verbatim>\<open>analyze_monthly_data\<close> (lines 58--128). The three blocks of the source compute,
  in this order, the B2B figures (lines 80--97), the B2C figures (lines 100--112) and the
  purchases (lines 121--126); \<^verbatim>\<open>list(set(...))\<close> of line 118 is \<^const>\<open>remdups\<close>.
  The column reads of lines 81 and 101 have no test of \<^verbatim>\<open>df.columns\<close> before them.
\<close>

definition analyze_monthly_data ::
  "string \<Rightarrow> dataframe \<Rightarrow> dataframe \<Rightarrow> dataframe \<Rightarrow> py_error + monthly_summary" where
  "analyze_monthly_data month_name b2b_df b2c_df purchase_df =
     bind_err
       (if \<not> df_empty b2b_df then
          bind_err (df_getitem b2b_df ''Invoice Value'') (\<lambda>iv.
          bind_err (fillna_sum iv) (\<lambda>b2b_sales.
          bind_err
            (if ''Taxable Value'' \<in> set (columns b2b_df) \<and> ''Rate'' \<in> set (columns b2b_df)
             then bind_err (df_getitem b2b_df ''Taxable Value'') (\<lambda>tv.
                  bind_err (df_getitem b2b_df ''Rate'') (\<lambda>r. tax_sum tv r))
             else Inr 0)
            (\<lambda>gst_from_b2b.
          bind_err
            (if ''GSTIN/UIN of Recipient'' \<in> set (columns b2b_df)
             then bind_err (df_getitem b2b_df ''GSTIN/UIN of Recipient'') (\<lambda>g. Inr (nunique g))
             else Inr 0)
            (\<lambda>customers.
          bind_err
            (if ''Rate'' \<in> set (columns b2b_df)
             then bind_err (df_getitem b2b_df ''Rate'') (\<lambda>r. Inr (dropna_unique r))
             else Inr [])
            (\<lambda>rates. Inr (b2b_sales, gst_from_b2b, customers, rates))))))
        else Inr (0, 0, 0, []))
       (\<lambda>(b2b_sales, gst_from_b2b, customers, b2b_rates).
     bind_err
       (if \<not> df_empty b2c_df then
          bind_err (df_getitem b2c_df ''Taxable Value'') (\<lambda>tv.
          bind_err (fillna_sum tv) (\<lambda>b2c_sales.
          if ''Rate'' \<in> set (columns b2c_df)
          then bind_err (df_getitem b2c_df ''Taxable Value'') (\<lambda>tv.
               bind_err (df_getitem b2c_df ''Rate'') (\<lambda>r.
               bind_err (tax_sum tv r) (\<lambda>gst_from_b2c.
                 Inr (b2c_sales, gst_from_b2c, dropna_unique r))))
          else Inr (b2c_sales, 0, [])))
        else Inr (0, 0, []))
       (\<lambda>(b2c_sales, gst_from_b2c, b2c_rates).
     bind_err
       (if \<not> df_empty purchase_df then
          (if ''Taxable Value'' \<in> set (columns purchase_df)
           then bind_err (df_getitem purchase_df ''Taxable Value'') fillna_sum
           else if ''Invoice Value'' \<in> set (columns purchase_df)
           then bind_err (df_getitem purchase_df ''Invoice Value'') fillna_sum
           else Inr 0)
        else Inr 0)
       (\<lambda>purchases.
       Inr \<lparr> month = month_name,
             b2b_transactions = int (nrows b2b_df),
             b2c_transactions = int (nrows b2c_df),
             purchase_transactions = int (nrows purchase_df),
             b2b_sales = b2b_sales,
             b2c_sales = b2c_sales,
             m_total_sales = b2b_sales + b2c_sales,
             m_total_purchases = purchases,
             gst_collected = 0 + gst_from_b2b + gst_from_b2c,
             tax_rates_used = remdups (b2b_rates @ b2c_rates),
             interstate_sales = 0,
             intrastate_sales = 0,
             unique_customers = customers \<rparr>)))"

text \<open>
  \<^verbatim>\<open>str.strip\<close>: the ASCII characters for which \<^verbatim>\<open>str.isspace\<close> holds are the codes
  9 to 13, 28 to 31 and 32.
\<close>

definition is_space :: "char \<Rightarrow> bool" where
  "is_space c = (let n = (of_char c :: nat) in (9 \<le> n \<and> n \<le> 13) \<or> (28 \<le> n \<and> n \<le> 32))"

definition strip :: "string \<Rightarrow> string" where
  "strip s = rev (dropWhile is_space (rev (dropWhile is_space s)))"

text \<open>
  The parsers. The readers \<^verbatim>\<open>pd.read_csv\<close> and \<^verbatim>\<open>pd.read_excel\<close> belong to the
  library: they are parameters, returning \<open>Inl\<close> with the exception's message when they
  raise. \<open>read_excel\<close> stands for the whole expression of line 52, the
  \<^verbatim>\<open>latin1\<close> encoding included. The messages given to \<^verbatim>\<open>st.error\<close> and
  \<^verbatim>\<open>st.warning\<close> are returned beside the table.
\<close>

type_synonym reader = "string \<Rightarrow> string + dataframe"

datatype diagnostic = StError string | StWarning string

definition strip_columns :: "dataframe \<Rightarrow> dataframe" where
  "strip_columns df = df\<lparr> cols := map (\<lambda>(name, s). (strip name, s)) (cols df) \<rparr>"

definition parse_b2b_file :: "reader \<Rightarrow> string \<Rightarrow> dataframe \<times> diagnostic list" where
  "parse_b2b_file read_csv file_content =
     (case read_csv file_content of
        Inr df \<Rightarrow> (strip_columns df, [])
      | Inl e \<Rightarrow> (empty_dataframe, [StError (''Error parsing B2B file: '' @ e)]))"

definition parse_b2c_file :: "reader \<Rightarrow> string \<Rightarrow> dataframe \<times> diagnostic list" where
  "parse_b2c_file read_csv file_content =
     (case read_csv file_content of
        Inr df \<Rightarrow> (strip_columns df, [])
      | Inl e \<Rightarrow> (empty_dataframe, [StError (''Error parsing B2C file: '' @ e)]))"

definition parse_purchase_file ::
  "reader \<Rightarrow> reader \<Rightarrow> string \<Rightarrow> dataframe \<times> diagnostic list" where
  "parse_purchase_file read_csv read_excel file_content =
     (case (if prefix ''GSTIN'' file_content then read_csv file_content
            else read_excel file_content) of
        Inr df \<Rightarrow> (df, [])
      | Inl e \<Rightarrow> (empty_dataframe, [StWarning (''Could not parse purchase file: '' @ e)]))"

section \<open>Concrete library instances for the examples\<close>

text \<open>
  The theorems below hold for every reader, every date parser and every lower-casing
  function. To run the program on concrete inputs, two small instances of the library
  parameters are fixed here, beside \<open>ascii_lower\<close>. They cover the inputs the
  application itself produces: dates in the format \<^verbatim>\<open>%Y-%m-%d\<close> of line 576, and
  comma-separated text without quoting.
\<close>

fun split_on :: "char \<Rightarrow> string \<Rightarrow> string list" where
  "split_on d [] = [[]]"
| "split_on d (c # cs) =
     (if c = d then [] # split_on d cs
      else (case split_on d cs of [] \<Rightarrow> [[c]] | w # ws \<Rightarrow> (c # w) # ws))"

definition is_digit :: "char \<Rightarrow> bool" where
  "is_digit c = (let n = (of_char c :: nat) in 48 \<le> n \<and> n \<le> 57)"

definition nat_of_digits :: "string \<Rightarrow> nat" where
  "nat_of_digits s = foldl (\<lambda>n c. 10 * n + (of_char c - 48)) 0 s"

text \<open>Days from 1970-01-01 to a date of the proleptic Gregorian calendar.\<close>

definition days_from_civil :: "int \<Rightarrow> int \<Rightarrow> int \<Rightarrow> int" where
  "days_from_civil y m d =
     (let y' = (if m \<le> 2 then y - 1 else y);
          era = y' div 400;
          yoe = y' - era * 400;
          doy = (153 * (m + (if m > 2 then - 3 else 9)) + 2) div 5 + d - 1;
          doe = yoe * 365 + yoe div 4 - yoe div 100 + doy
      in era * 146097 + doe - 719468)"

definition days_in_month :: "int \<Rightarrow> int \<Rightarrow> int" where
  "days_in_month y m =
     (if m = 2 then (if y mod 4 = 0 \<and> (y mod 100 \<noteq> 0 \<or> y mod 400 = 0) then 29 else 28)
      else if m \<in> set [4, 6, 9, 11] then 30 else 31)"

text \<open>
  \<^verbatim>\<open>pd.to_datetime\<close> on a string \<^verbatim>\<open>YYYY-MM-DD\<close> naming a day of the years 1678
  to 2261: the timestamp of its midnight. This instance raises on every other string.
\<close>

definition iso_to_datetime :: date_parser where
  "iso_to_datetime s =
     (case split_on CHR ''-'' s of
        [ys, ms, ds] \<Rightarrow>
          (let y = int (nat_of_digits ys); m = int (nat_of_digits ms); d = int (nat_of_digits ds)
           in if length ys = 4 \<and> length ms = 2 \<and> length ds = 2
                 \<and> list_all is_digit (ys @ ms @ ds)
                 \<and> 1678 \<le> y \<and> y \<le> 2261 \<and> 1 \<le> m \<and> m \<le> 12
                 \<and> 1 \<le> d \<and> d \<le> days_in_month y m
              then Inr (Timestamp (days_from_civil y m d * ns_per_day))
              else Inl (ValueError (''Unknown datetime string format, unable to parse: '' @ s)))
      | _ \<Rightarrow> Inl (ValueError (''Unknown datetime string format, unable to parse: '' @ s)))"

text \<open>A decimal number: an optional sign, digits, and an optional fraction.\<close>

definition parse_unsigned :: "string \<Rightarrow> rat option" where
  "parse_unsigned s =
     (case split_on CHR ''.'' s of
        [i] \<Rightarrow> if i \<noteq> [] \<and> list_all is_digit i then Some (of_nat (nat_of_digits i)) else None
      | [i, f] \<Rightarrow>
          if i \<noteq> [] \<and> f \<noteq> [] \<and> list_all is_digit (i @ f)
          then Some (of_nat (nat_of_digits i) + of_nat (nat_of_digits f) / 10 ^ length f)
          else None
      | _ \<Rightarrow> None)"

definition parse_number :: "string \<Rightarrow> rat option" where
  "parse_number s =
     (case s of
        c # cs \<Rightarrow> if c = CHR ''-'' then map_option uminus (parse_unsigned cs) else parse_unsigned s
      | [] \<Rightarrow> None)"

text \<open>
  The type of a column is inferred from all of its fields: numbers when every non-empty
  field is a number, texts otherwise; an empty field is a missing value.
\<close>

definition typed_column :: "string list \<Rightarrow> cell list" where
  "typed_column texts =
     (if list_all (\<lambda>f. f = [] \<or> parse_number f \<noteq> None) texts
      then map (\<lambda>f. case parse_number f of Some x \<Rightarrow> Num x | None \<Rightarrow> NaN) texts
      else map (\<lambda>f. if f = [] then NaN else Str f) texts)"

text \<open>
  \<^verbatim>\<open>pd.read_csv\<close> on unquoted comma-separated text: the first non-blank line names the
  columns, every further non-blank line is a row, a short row is filled with missing
  values, and a row longer than the header is refused by this instance.
\<close>

definition csv_reader :: reader where
  "csv_reader content =
     (case filter (\<lambda>l. l \<noteq> []) (split_on (char_of (10 :: nat)) content) of
        [] \<Rightarrow> Inl ''No columns to parse from file''
      | header # body \<Rightarrow>
          (let names = split_on CHR '','' header;
               rows = map (split_on CHR '','') body
           in if list_ex (\<lambda>r. length r > length names) rows
              then Inl ''Error tokenizing data''
              else Inr \<lparr> nrows = length rows,
                         cols = map (\<lambda>i. (names ! i,
                                  typed_column (map (\<lambda>r. if i < length r then r ! i else []) rows)))
                                [0..<length names] \<rparr>))"

text \<open>A spreadsheet reader that refuses every input.\<close>

definition no_excel :: reader where
  "no_excel content = Inl ''Excel file format cannot be determined''"

section \<open>Example inputs\<close>

text \<open>
  One month of B2B invoices: invoice value and taxable value 100,000 in total, rate 18,
  no B2C table and no purchase table.
\<close>

definition example_b2b :: dataframe where
  "example_b2b = \<lparr> nrows = 2, cols = [
     (''GSTIN/UIN of Recipient'', [Str ''24ABCDE1234F1Z5'', Str ''24ABCDE1234F1Z5'']),
     (''Invoice Value'', [Num 60000, Num 40000]),
     (''Taxable Value'', [Num 60000, Num 40000]),
     (''Rate'', [Num 18, Num 18])] \<rparr>"

definition example_month :: monthly_summary where
  "example_month = \<lparr> month = ''Month 1'', b2b_transactions = 2, b2c_transactions = 0,
     purchase_transactions = 0, b2b_sales = 100000, b2c_sales = 0, m_total_sales = 100000,
     m_total_purchases = 0, gst_collected = 18000, tax_rates_used = [Num 18],
     interstate_sales = 0, intrastate_sales = 0, unique_customers = 1 \<rparr>"

definition example_metrics :: business_metrics where
  "example_metrics = \<lparr> annual_turnover = 1200000, total_sales = 100000, total_purchases = 0,
     avg_monthly_sales = 100000, total_gst_collected = 18000, b2b_percentage = 100,
     b2c_percentage = 0, filing_frequency = 1, avg_transactions_per_month = 2,
     uses_standard_rates = True, profit_margin_estimate = 25, gst_compliance_score = 65 \<rparr>"

text \<open>The same B2B table without its \<^verbatim>\<open>Invoice Value\<close> column.\<close>

definition b2b_without_invoice_value :: dataframe where
  "b2b_without_invoice_value = \<lparr> nrows = 2, cols = [
     (''GSTIN/UIN of Recipient'', [Str ''24ABCDE1234F1Z5'', Str ''24ABCDE1234F1Z5'']),
     (''Taxable Value'', [Num 60000, Num 40000]),
     (''Rate'', [Num 18, Num 18])] \<rparr>"

text \<open>A B2C table of one row that has a \<^verbatim>\<open>Rate\<close> column only.\<close>

definition b2c_without_taxable_value :: dataframe where
  "b2c_without_taxable_value = \<lparr> nrows = 1, cols = [(''Rate'', [Num 18])] \<rparr>"

definition sikkim_trader :: business_profile where
  "sikkim_trader = \<lparr> gstin = ''11AAAAA0000A1Z5'', business_name = ''ABC Enterprises'',
     business_type = ''trader'', business_category = ''goods'',
     incorporation_date = ''2020-01-01'', state = ''Sikkim'' \<rparr>"

definition sikkim_metrics :: business_metrics where
  "sikkim_metrics = example_metrics \<lparr> annual_turnover := 6000000 \<rparr>"

text \<open>A trader of Gujarat, and metrics with an annual turnover of 8,000,000.\<close>

definition gujarat_trader :: business_profile where
  "gujarat_trader = sikkim_trader \<lparr> state := ''Gujarat'' \<rparr>"

definition metrics_8m :: business_metrics where
  "metrics_8m = example_metrics \<lparr> annual_turnover := 8000000 \<rparr>"

definition startup_unparsable :: business_profile where
  "startup_unparsable = \<lparr> gstin = ''24AAAAA0000A1Z5'', business_name = ''ABC Labs'',
     business_type = ''startup'', business_category = ''services'',
     incorporation_date = ''not-a-date'', state = ''Gujarat'' \<rparr>"

text \<open>
  The content of a purchase file in comma-separated form, two lines, whose header has
  blanks around the commas.
\<close>

definition purchase_csv :: string where
  "purchase_csv = ''GSTIN , Taxable Value '' @ [char_of (10 :: nat)]
     @ ''24ABCDE1234F1Z5,100'' @ [char_of (10 :: nat)]"

text \<open>Three readings of the clock: noon of two days, and a midnight.\<close>

definition clock_2020_08_01 :: int where
  "clock_2020_08_01 = days_from_civil 2020 8 1 * ns_per_day + 12 * 3600 * 1000000000"

definition clock_2026_11_03 :: int where
  "clock_2026_11_03 = days_from_civil 2026 11 3 * ns_per_day + 12 * 3600 * 1000000000"

definition clock_2027_01_01 :: int where
  "clock_2027_01_01 = days_from_civil 2027 1 1 * ns_per_day"

section \<open>The examples, run\<close>

lemma iso_min_date: "iso_to_datetime ''2016-04-01'' = Inr min_date"
  by code_simp

lemma example_month_analysis:
  "analyze_monthly_data ''Month 1'' example_b2b empty_dataframe empty_dataframe
     = Inr example_month"
  by code_simp

lemma example_metrics_aggregate:
  "calculate_aggregate_metrics [example_month] = Some example_metrics"
  by code_simp

section \<open>The metrics aggregator: scores, margins and percentages\<close>

text \<open>
  Claim C7. For every non-empty sequence of monthly summaries the aggregator returns a
  metrics record; its \<open>gst_compliance_score\<close> lies in [0, 100] and equals
  \<open>min 100 (filing_frequency * 15 + (if uses_standard_rates then 50 else 0))\<close>, where
  \<open>filing_frequency\<close> is the number of summaries and \<open>uses_standard_rates\<close> says that
  every observed rate is one of 0, 5, 12, 18, 28; its \<open>profit_margin_estimate\<close> lies in
  [5, 25] when \<open>total_sales > 0\<close> and is exactly 10 when \<open>total_sales = 0\<close>.
\<close>

theorem compliance_score_and_margin_bounds:
  assumes "ms \<noteq> []"
  shows "\<exists>m. calculate_aggregate_metrics ms = Some m
     \<and> 0 \<le> gst_compliance_score m \<and> gst_compliance_score m \<le> 100
     \<and> gst_compliance_score m
          = min 100 (filing_frequency m * 15 + (if uses_standard_rates m then 50 else 0))
     \<and> filing_frequency m = int (length ms)
     \<and> uses_standard_rates m
          = (\<forall>s \<in> set ms. \<forall>rate \<in> set (tax_rates_used s). rate \<in> {Num 0, Num 5, Num 12, Num 18, Num 28})
     \<and> (total_sales m > 0 \<longrightarrow> 5 \<le> profit_margin_estimate m \<and> profit_margin_estimate m \<le> 25)
     \<and> (total_sales m = 0 \<longrightarrow> profit_margin_estimate m = 10)"
  using assms
  by (simp add: calculate_aggregate_metrics_def Let_def list_all_iff standard_rates_def)

theorem compliance_score_and_margin_bounds_witness:
  "[example_month] \<noteq> [] \<and>
   (\<exists>m. calculate_aggregate_metrics [example_month] = Some m
     \<and> 0 \<le> gst_compliance_score m \<and> gst_compliance_score m \<le> 100
     \<and> gst_compliance_score m
          = min 100 (filing_frequency m * 15 + (if uses_standard_rates m then 50 else 0))
     \<and> filing_frequency m = int (length [example_month])
     \<and> uses_standard_rates m
          = (\<forall>s \<in> set [example_month]. \<forall>rate \<in> set (tax_rates_used s).
               rate \<in> {Num 0, Num 5, Num 12, Num 18, Num 28})
     \<and> (total_sales m > 0 \<longrightarrow> 5 \<le> profit_margin_estimate m \<and> profit_margin_estimate m \<le> 25)
     \<and> (total_sales m = 0 \<longrightarrow> profit_margin_estimate m = 10))"
proof -
  have h: "[example_month] \<noteq> []" by simp
  from h compliance_score_and_margin_bounds [OF h] show ?thesis by (rule conjI)
qed

text \<open>
  Claim C8. For every non-empty sequence of monthly summaries the two percentages of the
  returned metrics add up to 100; when \<open>total_sales > 0\<close> the B2B percentage is
  100 times the sum of the B2B sales over \<open>total_sales\<close>, and when \<open>total_sales = 0\<close>
  the B2B percentage is 0 and the B2C percentage is 100. (Exact arithmetic.)
\<close>

theorem b2b_b2c_percentages:
  assumes "ms \<noteq> []"
  shows "\<exists>m. calculate_aggregate_metrics ms = Some m
     \<and> total_sales m = sum_list (map m_total_sales ms)
     \<and> b2b_percentage m + b2c_percentage m = 100
     \<and> (total_sales m > 0 \<longrightarrow>
           b2b_percentage m = 100 * sum_list (map b2b_sales ms) / total_sales m)
     \<and> (total_sales m = 0 \<longrightarrow> b2b_percentage m = 0 \<and> b2c_percentage m = 100)"
  using assms by (simp add: calculate_aggregate_metrics_def Let_def)

theorem b2b_b2c_percentages_witness:
  "[example_month] \<noteq> [] \<and>
   (\<exists>m. calculate_aggregate_metrics [example_month] = Some m
     \<and> total_sales m = sum_list (map m_total_sales [example_month])
     \<and> b2b_percentage m + b2c_percentage m = 100
     \<and> (total_sales m > 0 \<longrightarrow>
           b2b_percentage m = 100 * sum_list (map b2b_sales [example_month]) / total_sales m)
     \<and> (total_sales m = 0 \<longrightarrow> b2b_percentage m = 0 \<and> b2c_percentage m = 100))"
proof -
  have h: "[example_month] \<noteq> []" by simp
  from h b2b_b2c_percentages [OF h] show ?thesis by (rule conjI)
qed

section \<open>The loan assessment engine: score, grade and interest rate\<close>

lemma aggregate_facts:
  assumes "ms \<noteq> []"
  shows "\<exists>m. calculate_aggregate_metrics ms = Some m
     \<and> 15 \<le> gst_compliance_score m \<and> gst_compliance_score m \<le> 100
     \<and> 1 \<le> filing_frequency m
     \<and> 5 \<le> profit_margin_estimate m \<and> profit_margin_estimate m \<le> 25"
proof -
  from assms have "1 \<le> int (length ms)" by (cases ms) simp_all
  with assms show ?thesis
    by (simp add: calculate_aggregate_metrics_def Let_def)
qed

lemma turnover_points_range: "0 \<le> turnover_points t \<and> turnover_points t \<le> 200"
  by (simp add: turnover_points_def)

lemma filing_points_range: "0 \<le> filing_points f \<and> filing_points f \<le> 100"
  by (simp add: filing_points_def)

lemma vintage_points_range: "0 \<le> vintage_points td now p \<and> vintage_points td now p \<le> 100"
  by (simp add: vintage_points_def Let_def split: sum.split datetime.split)

lemma stability_points_range: "25 \<le> stability_points b \<and> stability_points b \<le> 100"
  by (simp add: stability_points_def)

lemma credit_score_range:
  assumes "0 \<le> gst_compliance_score m"
  shows "300 \<le> fst (calculate_credit_score td now p m)
       \<and> fst (calculate_credit_score td now p m) \<le> 900"
  using assms turnover_points_range [of "annual_turnover m"]
    filing_points_range [of "filing_frequency m"]
    vintage_points_range [of td now p]
    stability_points_range [of "b2b_percentage m"]
  by (simp add: calculate_credit_score_def Let_def)

lemma credit_grade_snd:
  "snd (calculate_credit_score td now p m) = grade_of (fst (calculate_credit_score td now p m))"
  by (simp add: calculate_credit_score_def Let_def)

text \<open>The fields of the loan assessment that the claims read.\<close>

lemma loan_credit_score:
  "credit_score (calculate_loan_eligibility td now p m) = fst (calculate_credit_score td now p m)"
  unfolding calculate_loan_eligibility_def
  by (cases "calculate_credit_score td now p m")
    (simp only: Let_def prod.case loan_assessment.select_convs fst_conv)

lemma loan_credit_grade:
  "credit_grade (calculate_loan_eligibility td now p m) = snd (calculate_credit_score td now p m)"
  unfolding calculate_loan_eligibility_def
  by (cases "calculate_credit_score td now p m")
    (simp only: Let_def prod.case loan_assessment.select_convs snd_conv)

lemma loan_interest_rate:
  "interest_rate (calculate_loan_eligibility td now p m)
     = final_interest_rate (snd (calculate_credit_score td now p m)) (business_type p)
         (profit_margin_estimate m) (gst_compliance_score m)"
  unfolding calculate_loan_eligibility_def
  by (cases "calculate_credit_score td now p m")
    (simp only: Let_def prod.case loan_assessment.select_convs snd_conv)

lemma loan_profit_margin:
  "profit_margin (calculate_loan_eligibility td now p m) = profit_margin_estimate m"
  unfolding calculate_loan_eligibility_def
  by (cases "calculate_credit_score td now p m")
    (simp only: Let_def prod.case loan_assessment.select_convs snd_conv)

text \<open>
  Claim C6. For every non-empty sequence of monthly summaries, and whatever the profile,
  the date parser and the clock, the credit score that the loan assessment engine returns
  for the aggregated metrics lies in [300, 900], and the grade follows the boundaries:
  excellent from 750, good from 650 to 749, fair from 500 to 649, poor below 500.
\<close>

theorem credit_score_range_and_grade:
  assumes "ms \<noteq> []"
  shows "\<exists>m. calculate_aggregate_metrics ms = Some m \<and>
    (\<forall>to_datetime now p.
       (credit_score (calculate_loan_eligibility to_datetime now p m),
        credit_grade (calculate_loan_eligibility to_datetime now p m))
         = calculate_credit_score to_datetime now p m
     \<and> (case calculate_credit_score to_datetime now p m of (score, grade) \<Rightarrow>
          300 \<le> score \<and> score \<le> 900
        \<and> (score \<ge> 750 \<longrightarrow> grade = Excellent)
        \<and> (650 \<le> score \<and> score < 750 \<longrightarrow> grade = Good)
        \<and> (500 \<le> score \<and> score < 650 \<longrightarrow> grade = Fair)
        \<and> (score < 500 \<longrightarrow> grade = Poor)))"
proof -
  from aggregate_facts [OF assms] obtain m where
    m: "calculate_aggregate_metrics ms = Some m" and c: "15 \<le> gst_compliance_score m"
    by blast
  have "\<forall>td now p.
       (credit_score (calculate_loan_eligibility td now p m),
        credit_grade (calculate_loan_eligibility td now p m))
         = calculate_credit_score td now p m
     \<and> (case calculate_credit_score td now p m of (score, grade) \<Rightarrow>
          300 \<le> score \<and> score \<le> 900
        \<and> (score \<ge> 750 \<longrightarrow> grade = Excellent)
        \<and> (650 \<le> score \<and> score < 750 \<longrightarrow> grade = Good)
        \<and> (500 \<le> score \<and> score < 650 \<longrightarrow> grade = Fair)
        \<and> (score < 500 \<longrightarrow> grade = Poor))"
  proof (intro allI)
    fix td now p
    have r: "300 \<le> fst (calculate_credit_score td now p m)
       \<and> fst (calculate_credit_score td now p m) \<le> 900"
      using c by (intro credit_score_range) simp
    obtain score grade where sg: "calculate_credit_score td now p m = (score, grade)"
      by (cases "calculate_credit_score td now p m")
    from credit_grade_snd [of td now p m] sg have g: "grade = grade_of score" by simp
    from r sg have "300 \<le> score \<and> score \<le> 900" by simp
    then show "(credit_score (calculate_loan_eligibility td now p m),
        credit_grade (calculate_loan_eligibility td now p m))
         = calculate_credit_score td now p m
     \<and> (case calculate_credit_score td now p m of (score, grade) \<Rightarrow>
          300 \<le> score \<and> score \<le> 900
        \<and> (score \<ge> 750 \<longrightarrow> grade = Excellent)
        \<and> (650 \<le> score \<and> score < 750 \<longrightarrow> grade = Good)
        \<and> (500 \<le> score \<and> score < 650 \<longrightarrow> grade = Fair)
        \<and> (score < 500 \<longrightarrow> grade = Poor))"
      using sg g by (simp add: loan_credit_score loan_credit_grade grade_of_def)
  qed
  with m show ?thesis by blast
qed

theorem credit_score_range_and_grade_witness:
  "[example_month] \<noteq> [] \<and>
   (\<exists>m. calculate_aggregate_metrics [example_month] = Some m \<and>
    (\<forall>to_datetime now p.
       (credit_score (calculate_loan_eligibility to_datetime now p m),
        credit_grade (calculate_loan_eligibility to_datetime now p m))
         = calculate_credit_score to_datetime now p m
     \<and> (case calculate_credit_score to_datetime now p m of (score, grade) \<Rightarrow>
          300 \<le> score \<and> score \<le> 900
        \<and> (score \<ge> 750 \<longrightarrow> grade = Excellent)
        \<and> (650 \<le> score \<and> score < 750 \<longrightarrow> grade = Good)
        \<and> (500 \<le> score \<and> score < 650 \<longrightarrow> grade = Fair)
        \<and> (score < 500 \<longrightarrow> grade = Poor))))"
proof -
  have h: "[example_month] \<noteq> []" by simp
  from h credit_score_range_and_grade [OF h] show ?thesis by (rule conjI)
qed

text \<open>
  Claim C10. For every metrics record that the aggregator produces from a non-empty
  sequence of monthly summaries, \<open>profit_margin_estimate\<close> is at least 5. The loan
  assessment reads that value as its profit margin, so the test \<open>profit_margin < 5\<close> of
  line 468 is false and the interest rate is the one computed without that branch.
\<close>

theorem margin_penalty_branch_unreachable:
  assumes "ms \<noteq> []"
  shows "\<exists>m. calculate_aggregate_metrics ms = Some m
    \<and> 5 \<le> profit_margin_estimate m
    \<and> (\<forall>to_datetime now p.
         profit_margin (calculate_loan_eligibility to_datetime now p m) = profit_margin_estimate m
       \<and> \<not> profit_margin (calculate_loan_eligibility to_datetime now p m) < 5
       \<and> interest_rate (calculate_loan_eligibility to_datetime now p m)
          = max (base_interest_rates (credit_grade (calculate_loan_eligibility to_datetime now p m))
                 + (if business_type p = ''startup'' then 3 / 2
                    else if business_type p = ''exporter'' then - 1 / 2 else 0)
                 + (if profit_margin_estimate m > 20 then - 1 / 2 else 0)
                 + (if gst_compliance_score m > 80 then - 1 / 2
                    else if gst_compliance_score m < 50 then 1 else 0))
                (17 / 2))"
proof -
  from aggregate_facts [OF assms] obtain m where
    m: "calculate_aggregate_metrics ms = Some m" and pm: "5 \<le> profit_margin_estimate m"
    by blast
  from pm have "\<not> profit_margin_estimate m < 5" by simp
  then have "final_interest_rate g bt (profit_margin_estimate m) c
      = max (base_interest_rates g
                 + (if bt = ''startup'' then 3 / 2
                    else if bt = ''exporter'' then - 1 / 2 else 0)
                 + (if profit_margin_estimate m > 20 then - 1 / 2 else 0)
                 + (if c > 80 then - 1 / 2
                    else if c < 50 then 1 else 0))
                (17 / 2)" for g bt c
    by (simp add: final_interest_rate_def Let_def)
  with m pm show ?thesis
    by (simp add: loan_interest_rate loan_credit_grade loan_profit_margin)
qed

theorem margin_penalty_branch_unreachable_witness:
  "[example_month] \<noteq> [] \<and>
   (\<exists>m. calculate_aggregate_metrics [example_month] = Some m
    \<and> 5 \<le> profit_margin_estimate m
    \<and> (\<forall>to_datetime now p.
         profit_margin (calculate_loan_eligibility to_datetime now p m) = profit_margin_estimate m
       \<and> \<not> profit_margin (calculate_loan_eligibility to_datetime now p m) < 5
       \<and> interest_rate (calculate_loan_eligibility to_datetime now p m)
          = max (base_interest_rates (credit_grade (calculate_loan_eligibility to_datetime now p m))
                 + (if business_type p = ''startup'' then 3 / 2
                    else if business_type p = ''exporter'' then - 1 / 2 else 0)
                 + (if profit_margin_estimate m > 20 then - 1 / 2 else 0)
                 + (if gst_compliance_score m > 80 then - 1 / 2
                    else if gst_compliance_score m < 50 then 1 else 0))
                (17 / 2)))"
proof -
  have h: "[example_month] \<noteq> []" by simp
  from h margin_penalty_branch_unreachable [OF h] show ?thesis by (rule conjI)
qed

section \<open>The scheme eligibility engine\<close>

text \<open>Every key that a block stores under is a key of the catalog, with a name and a url.\<close>

lemma verdict_eq:
  "map_of schemes k = Some [(''name'', n), (''url'', u)] \<Longrightarrow>
   verdict k e r = Inr \<lparr> eligible = e, reason = r, scheme_name = n, url = u \<rparr>"
  by (simp add: verdict_def getitem_def bind_err_def)

lemma schemes_keys:
  "map fst schemes = [''advance_authorisation'', ''epcg'', ''startup_tax_benefits'',
     ''pmmy_loans'', ''nsic_support'', ''digital_lending'', ''gem_platform'',
     ''income_tax_deduction'', ''gst_composition'']"
  by (simp add: schemes_def)

lemma verdict_advance_authorisation:
  "verdict ''advance_authorisation'' e r = Inr \<lparr> eligible = e, reason = r,
     scheme_name = ''Advance Authorisation Scheme (Export Incentive)'',
     url = ''https://www.dgft.gov.in/advance-authorisation'' \<rparr>"
  by (rule verdict_eq) (simp add: schemes_def)

lemma verdict_pmmy_loans:
  "verdict ''pmmy_loans'' e r = Inr \<lparr> eligible = e, reason = r,
     scheme_name = ''MSME Loans under PMMY'', url = ''https://www.mudra.org.in/'' \<rparr>"
  by (rule verdict_eq) (simp add: schemes_def)

lemma verdict_startup_tax_benefits:
  "verdict ''startup_tax_benefits'' e r = Inr \<lparr> eligible = e, reason = r,
     scheme_name = ''Startup Tax Benefits'', url = ''https://startupindia.gov.in/'' \<rparr>"
  by (rule verdict_eq) (simp add: schemes_def)

lemma verdict_digital_lending:
  "verdict ''digital_lending'' e r = Inr \<lparr> eligible = e, reason = r,
     scheme_name = ''Digital Lending Using GST Data'',
     url = ''Partner with NBFCs or Fintech platforms'' \<rparr>"
  by (rule verdict_eq) (simp add: schemes_def)

lemma verdict_gem_platform:
  "verdict ''gem_platform'' e r = Inr \<lparr> eligible = e, reason = r,
     scheme_name = ''Government e-Marketplace (GeM)'', url = ''https://gem.gov.in/'' \<rparr>"
  by (rule verdict_eq) (simp add: schemes_def)

lemma verdict_gst_composition:
  "verdict ''gst_composition'' e r = Inr \<lparr> eligible = e, reason = r,
     scheme_name = ''GST Composition Scheme'',
     url = ''Opt-in via GST portal during registration or return filing'' \<rparr>"
  by (rule verdict_eq) (simp add: schemes_def)

lemmas verdict_simps = verdict_advance_authorisation verdict_pmmy_loans
  verdict_startup_tax_benefits verdict_digital_lending verdict_gem_platform
  verdict_gst_composition

text \<open>The six blocks: which of them return, and with which flag.\<close>

lemma advance_authorisation_Inr:
  "\<exists>v. advance_authorisation p = Inr v \<and> eligible v = (business_type p = ''exporter'')"
  by (simp add: advance_authorisation_def verdict_simps)

lemma pmmy_loans_Inr:
  "\<exists>v. pmmy_loans p m = Inr v
     \<and> eligible v = (business_type p \<in> {''msme'', ''manufacturer'', ''trader''})"
  by (simp add: pmmy_loans_def verdict_simps Let_def)

lemma digital_lending_Inr:
  "\<exists>v. digital_lending m = Inr v
     \<and> eligible v = (gst_compliance_score m > 60 \<and> annual_turnover m > 500000)"
  by (simp add: digital_lending_def verdict_simps)

lemma gem_platform_Inr:
  "\<exists>v. gem_platform m = Inr v \<and> eligible v = (filing_frequency m \<ge> 3)"
  by (simp add: gem_platform_def verdict_simps)

lemma gst_composition_Inr:
  "\<exists>v. gst_composition lw p m = Inr v
     \<and> eligible v = (annual_turnover m < of_int (threshold lw p)
          \<and> business_type p \<in> {''manufacturer'', ''trader'', ''restaurant''})"
  by (simp add: gst_composition_def verdict_simps)

lemma startup_not_startup:
  "business_type p \<noteq> ''startup'' \<Longrightarrow>
   \<exists>v. startup_tax_benefits td p m = Inr v \<and> \<not> eligible v"
  by (simp add: startup_tax_benefits_def verdict_simps)

lemma startup_parse_error:
  "business_type p = ''startup'' \<Longrightarrow> td (incorporation_date p) = Inl e \<Longrightarrow>
   startup_tax_benefits td p m = Inl e"
  by (simp add: startup_tax_benefits_def bind_err_def)

lemma startup_naive:
  "td (incorporation_date p) = Inr d \<Longrightarrow> (\<forall>t. d \<noteq> TimestampTZ t) \<Longrightarrow>
   \<exists>v. startup_tax_benefits td p m = Inr v"
  by (cases d) (simp_all add: startup_tax_benefits_def bind_err_def verdict_simps min_date_def)

text \<open>
  The function raises exactly when its startup block raises, and otherwise returns the
  dictionary of the six stored verdicts.
\<close>

lemma assess_startup_error:
  "startup_tax_benefits td p m = Inl e \<Longrightarrow> assess_scheme_eligibility td lw p m = Inl e"
  using advance_authorisation_Inr [of p] pmmy_loans_Inr [of p m]
  by (auto simp: assess_scheme_eligibility_def bind_err_def)

lemma assess_startup_ok:
  assumes "startup_tax_benefits td p m = Inr v3"
  shows "\<exists>v1 v2 v4 v5 v6.
     advance_authorisation p = Inr v1 \<and> pmmy_loans p m = Inr v2
   \<and> digital_lending m = Inr v4 \<and> gem_platform m = Inr v5 \<and> gst_composition lw p m = Inr v6
   \<and> assess_scheme_eligibility td lw p m =
       Inr [''advance_authorisation'' \<mapsto> v1, ''pmmy_loans'' \<mapsto> v2,
            ''startup_tax_benefits'' \<mapsto> v3, ''digital_lending'' \<mapsto> v4,
            ''gem_platform'' \<mapsto> v5, ''gst_composition'' \<mapsto> v6]"
proof -
  obtain v1 where v1: "advance_authorisation p = Inr v1"
    using advance_authorisation_Inr by blast
  obtain v2 where v2: "pmmy_loans p m = Inr v2"
    using pmmy_loans_Inr by blast
  obtain v4 where v4: "digital_lending m = Inr v4"
    using digital_lending_Inr by blast
  obtain v5 where v5: "gem_platform m = Inr v5"
    using gem_platform_Inr by blast
  obtain v6 where v6: "gst_composition lw p m = Inr v6"
    using gst_composition_Inr by blast
  show ?thesis
    using assms v1 v2 v4 v5 v6
    by (simp add: assess_scheme_eligibility_def bind_err_def)
qed

lemma assess_dom:
  assumes "assess_scheme_eligibility td lw p m = Inr r"
  shows "dom r = {''advance_authorisation'', ''pmmy_loans'', ''startup_tax_benefits'',
     ''digital_lending'', ''gem_platform'', ''gst_composition''}"
proof (cases "startup_tax_benefits td p m")
  case (Inl e)
  from assess_startup_error [OF this] assms show ?thesis by simp
next
  case (Inr v3)
  from assess_startup_ok [OF this, where lw = lw] assms obtain v1 v2 v4 v5 v6 where
    "r = [''advance_authorisation'' \<mapsto> v1, ''pmmy_loans'' \<mapsto> v2,
            ''startup_tax_benefits'' \<mapsto> v3, ''digital_lending'' \<mapsto> v4,
            ''gem_platform'' \<mapsto> v5, ''gst_composition'' \<mapsto> v6]"
    by auto
  then have "dom r = insert ''gst_composition'' (insert ''gem_platform''
     (insert ''digital_lending'' (insert ''startup_tax_benefits''
     (insert ''pmmy_loans'' (insert ''advance_authorisation'' {})))))"
    by (simp only: dom_fun_upd dom_empty option.simps if_False)
  then show ?thesis by (simp only: insert_commute)
qed

lemma assess_returns:
  assumes "business_type p \<noteq> ''startup''
     \<or> (\<exists>d. td (incorporation_date p) = Inr d \<and> (\<forall>t. d \<noteq> TimestampTZ t))"
  shows "\<exists>r. assess_scheme_eligibility td lw p m = Inr r"
proof -
  from assms have "\<exists>v3. startup_tax_benefits td p m = Inr v3"
    using startup_not_startup [of p td m] startup_naive [of td p _ m]
    by blast
  then obtain v3 where "startup_tax_benefits td p m = Inr v3" ..
  from assess_startup_ok [OF this, where lw = lw] show ?thesis by blast
qed

lemma assess_gst_composition:
  assumes "assess_scheme_eligibility td lw p m = Inr r"
  shows "\<exists>v. r ''gst_composition'' = Some v
     \<and> eligible v = (annual_turnover m < of_int (threshold lw p)
          \<and> business_type p \<in> {''manufacturer'', ''trader'', ''restaurant''})"
proof (cases "startup_tax_benefits td p m")
  case (Inl e)
  from assess_startup_error [OF this] assms show ?thesis by simp
next
  case (Inr v3)
  from assess_startup_ok [OF this, where lw = lw] assms gst_composition_Inr [of lw p m] show ?thesis by auto
qed

text \<open>
  The threshold of line 331, with the substring test written out, and with the lower-casing
  and the substring test replaced by a comparison up to the case of ASCII letters. The ten
  names of line 328 are in small letters.
\<close>

lemma of_char_ascii_lower_char:
  "(of_char (ascii_lower_char c) :: nat)
     = (if 65 \<le> (of_char c :: nat) \<and> (of_char c :: nat) \<le> 90 then of_char c + 32 else of_char c)"
  by (simp add: ascii_lower_char_def Let_def)

lemma same_letter_iff: "same_letter c d \<longleftrightarrow> ascii_lower_char c = ascii_lower_char d"
proof -
  have "ascii_lower_char c = ascii_lower_char d
    \<longleftrightarrow> (of_char (ascii_lower_char c) :: nat) = of_char (ascii_lower_char d)"
    by simp
  also have "\<dots> \<longleftrightarrow> same_letter c d"
    unfolding of_char_ascii_lower_char same_letter_def Let_def by auto
  finally show ?thesis by simp
qed

lemma list_all2_same_letter:
  "list_all2 same_letter xs ys \<longleftrightarrow> ascii_lower xs = ascii_lower ys"
proof (induction xs arbitrary: ys)
  case Nil
  show ?case by (cases ys) (simp_all add: ascii_lower_def)
next
  case (Cons x xs)
  then show ?case by (cases ys) (simp_all add: ascii_lower_def same_letter_iff)
qed

lemma sublist_ascii_lower:
  assumes "ascii_lower s = s"
  shows "(\<exists>pre suf. ascii_lower t = pre @ s @ suf)
     \<longleftrightarrow> (\<exists>pre mid suf. t = pre @ mid @ suf \<and> list_all2 same_letter mid s)"
proof
  assume "\<exists>pre suf. ascii_lower t = pre @ s @ suf"
  then obtain ps ss where "map ascii_lower_char t = ps @ s @ ss"
    by (auto simp: ascii_lower_def)
  then obtain pre rest where t: "t = pre @ rest" and "s @ ss = map ascii_lower_char rest"
    unfolding map_eq_append_conv by blast
  then obtain mid suf where r: "rest = mid @ suf" and m: "s = map ascii_lower_char mid"
    unfolding append_eq_map_conv by blast
  from m assms have "ascii_lower mid = ascii_lower s" by (simp add: ascii_lower_def)
  then have "list_all2 same_letter mid s" by (simp add: list_all2_same_letter)
  with t r show "\<exists>pre mid suf. t = pre @ mid @ suf \<and> list_all2 same_letter mid s" by blast
next
  assume "\<exists>pre mid suf. t = pre @ mid @ suf \<and> list_all2 same_letter mid s"
  then obtain pre mid suf where t: "t = pre @ mid @ suf" and "list_all2 same_letter mid s"
    by blast
  then have "ascii_lower mid = s" using assms by (simp add: list_all2_same_letter)
  with t have "ascii_lower t = ascii_lower pre @ s @ ascii_lower suf"
    by (auto simp: ascii_lower_def)
  then show "\<exists>pre suf. ascii_lower t = pre @ s @ suf" by blast
qed

lemma ne_hill_states_lower: "s \<in> set ne_hill_states \<Longrightarrow> ascii_lower s = s"
proof -
  have "list_all (\<lambda>s. ascii_lower s = s) ne_hill_states" by code_simp
  then show "s \<in> set ne_hill_states \<Longrightarrow> ascii_lower s = s" by (simp add: list_all_iff)
qed

lemma threshold_spec:
  "threshold lw p = (if \<exists>s \<in> set ne_hill_states. \<exists>pre suf. lw (state p) = pre @ s @ suf
                  then 7500000 else 15000000)"
  by (simp add: threshold_def list_ex_iff sublist_def)

lemma threshold_case_insensitive:
  assumes "lw (state p) = ascii_lower (state p)"
  shows "threshold lw p
    = (if \<exists>s \<in> set ne_hill_states. \<exists>pre mid suf.
             state p = pre @ mid @ suf \<and> list_all2 same_letter mid s
       then 7500000 else 15000000)"
proof -
  have "(\<exists>s \<in> set ne_hill_states. \<exists>pre suf. lw (state p) = pre @ s @ suf)
    \<longleftrightarrow> (\<exists>s \<in> set ne_hill_states. \<exists>pre mid suf.
             state p = pre @ mid @ suf \<and> list_all2 same_letter mid s)"
    unfolding assms using sublist_ascii_lower [OF ne_hill_states_lower] by blast
  then show ?thesis by (simp only: threshold_spec)
qed

lemma same_letter_Sikkim: "list_all2 same_letter ''Sikkim'' ''sikkim''"
  by code_simp

lemma gujarat_no_match:
  "\<not> (\<exists>s \<in> set ne_hill_states. \<exists>pre suf. ascii_lower ''Gujarat'' = pre @ s @ suf)"
proof -
  have "\<not> list_ex (\<lambda>s. sublist s (ascii_lower ''Gujarat'')) ne_hill_states" by code_simp
  then show ?thesis by (simp add: list_ex_iff sublist_def)
qed

text \<open>
  Claim C9. For every profile and metrics, the evaluator returns a \<open>gst_composition\<close>
  verdict that is eligible if and only if the business type is one of manufacturer,
  trader, restaurant and the annual turnover is strictly below the threshold: 7,500,000
  when the lower-cased state contains one of the ten names of \<open>ne_hill_states\<close> as a
  substring, 15,000,000 otherwise. Whenever the evaluator returns at all, the verdict is
  there and its flag is that condition. Where \<^verbatim>\<open>str.lower\<close> acts on the state as it
  does on ASCII text, the condition on the state is that some part of it equals one of
  the ten names up to the case of its letters.
\<close>

theorem gst_composition_rule:
  "length ne_hill_states = 10
   \<and> ((\<exists>r v. assess_scheme_eligibility to_datetime str_lower p m = Inr r
              \<and> r ''gst_composition'' = Some v \<and> eligible v)
        \<longleftrightarrow> business_type p \<in> {''manufacturer'', ''trader'', ''restaurant''}
            \<and> annual_turnover m
                < (if \<exists>s \<in> set ne_hill_states. \<exists>pre suf. str_lower (state p) = pre @ s @ suf
                   then 7500000 else 15000000))
   \<and> (\<forall>r. assess_scheme_eligibility to_datetime str_lower p m = Inr r \<longrightarrow>
        (\<exists>v. r ''gst_composition'' = Some v
           \<and> (eligible v
               \<longleftrightarrow> business_type p \<in> {''manufacturer'', ''trader'', ''restaurant''}
                 \<and> annual_turnover m
                     < (if \<exists>s \<in> set ne_hill_states. \<exists>pre suf.
                             str_lower (state p) = pre @ s @ suf
                        then 7500000 else 15000000))))
   \<and> (str_lower (state p) = ascii_lower (state p) \<longrightarrow>
        ((\<exists>r v. assess_scheme_eligibility to_datetime str_lower p m = Inr r
              \<and> r ''gst_composition'' = Some v \<and> eligible v)
        \<longleftrightarrow> business_type p \<in> {''manufacturer'', ''trader'', ''restaurant''}
            \<and> annual_turnover m
                < (if \<exists>s \<in> set ne_hill_states. \<exists>pre mid suf.
                        state p = pre @ mid @ suf \<and> list_all2 same_letter mid s
                   then 7500000 else 15000000)))"
proof -
  let ?lhs = "\<exists>r v. assess_scheme_eligibility to_datetime str_lower p m = Inr r
              \<and> r ''gst_composition'' = Some v \<and> eligible v"
  let ?code = "annual_turnover m < of_int (threshold str_lower p)
          \<and> business_type p \<in> {''manufacturer'', ''trader'', ''restaurant''}"
  let ?rhs = "business_type p \<in> {''manufacturer'', ''trader'', ''restaurant''}
            \<and> annual_turnover m
                < (if \<exists>s \<in> set ne_hill_states. \<exists>pre suf. str_lower (state p) = pre @ s @ suf
                   then 7500000 else 15000000)"
  let ?ci = "business_type p \<in> {''manufacturer'', ''trader'', ''restaurant''}
            \<and> annual_turnover m
                < (if \<exists>s \<in> set ne_hill_states. \<exists>pre mid suf.
                        state p = pre @ mid @ suf \<and> list_all2 same_letter mid s
                   then 7500000 else 15000000)"
  have t: "?code = ?rhs"
    by (auto simp: threshold_spec)
  have a: "\<exists>v. r ''gst_composition'' = Some v \<and> (eligible v \<longleftrightarrow> ?rhs)"
    if "assess_scheme_eligibility to_datetime str_lower p m = Inr r" for r
    using assess_gst_composition [OF that] unfolding t .
  have b: ?lhs if rhs: ?rhs
  proof -
    from rhs have "business_type p \<noteq> ''startup''" by auto
    then obtain r where r: "assess_scheme_eligibility to_datetime str_lower p m = Inr r"
      using assess_returns by blast
    from a [OF r] rhs r show ?thesis by blast
  qed
  have c: ?rhs if ?lhs
    using that a by fastforce
  from b c have iff: "?lhs \<longleftrightarrow> ?rhs" by blast
  have ci: "?lhs \<longleftrightarrow> ?ci" if h: "str_lower (state p) = ascii_lower (state p)"
  proof -
    have "?code = ?ci"
      by (auto simp: threshold_case_insensitive [of str_lower p, OF h])
    with t iff show ?thesis by simp
  qed
  have l: "length ne_hill_states = 10" by (simp add: ne_hill_states_def)
  from a iff ci l show ?thesis by blast
qed

text \<open>
  The scenario of the claim, state \<^verbatim>\<open>Sikkim\<close>, business type \<^verbatim>\<open>trader\<close>, annual
  turnover 6,000,000, is eligible; at 8,000,000 the trader of Sikkim is not eligible and
  the trader of Gujarat is.
\<close>

theorem gst_composition_rule_witness:
  "ascii_lower (state sikkim_trader) = ascii_lower (state sikkim_trader)
   \<and> business_type sikkim_trader = ''trader'' \<and> state sikkim_trader = ''Sikkim''
   \<and> business_type gujarat_trader = ''trader'' \<and> state gujarat_trader = ''Gujarat''
   \<and> annual_turnover sikkim_metrics = 6000000 \<and> annual_turnover metrics_8m = 8000000
   \<and> (\<exists>r v. assess_scheme_eligibility iso_to_datetime ascii_lower sikkim_trader sikkim_metrics
               = Inr r \<and> r ''gst_composition'' = Some v \<and> eligible v)
   \<and> \<not> (\<exists>r v. assess_scheme_eligibility iso_to_datetime ascii_lower sikkim_trader metrics_8m
               = Inr r \<and> r ''gst_composition'' = Some v \<and> eligible v)
   \<and> (\<exists>r v. assess_scheme_eligibility iso_to_datetime ascii_lower gujarat_trader metrics_8m
               = Inr r \<and> r ''gst_composition'' = Some v \<and> eligible v)"
proof -
  have h: "ascii_lower (state sikkim_trader) = ascii_lower (state sikkim_trader)" ..
  have bs: "business_type sikkim_trader = ''trader''" by (simp add: sikkim_trader_def)
  have ss: "state sikkim_trader = ''Sikkim''" by (simp add: sikkim_trader_def)
  have bg: "business_type gujarat_trader = ''trader''"
    by (simp add: gujarat_trader_def sikkim_trader_def)
  have sg: "state gujarat_trader = ''Gujarat''" by (simp add: gujarat_trader_def)
  have t6: "annual_turnover sikkim_metrics = 6000000" by (simp add: sikkim_metrics_def)
  have t8: "annual_turnover metrics_8m = 8000000" by (simp add: metrics_8m_def)
  have e: "state sikkim_trader = [] @ ''Sikkim'' @ []" unfolding ss by simp
  have s: "\<exists>s \<in> set ne_hill_states. \<exists>pre mid suf.
      state sikkim_trader = pre @ mid @ suf \<and> list_all2 same_letter mid s"
  proof (rule bexI [of _ "''sikkim''"])
    show "\<exists>pre mid suf. state sikkim_trader = pre @ mid @ suf
        \<and> list_all2 same_letter mid ''sikkim''"
      by (rule exI [of _ "[]"], rule exI [of _ "''Sikkim''"], rule exI [of _ "[]"],
          rule conjI, rule e, rule same_letter_Sikkim)
    show "''sikkim'' \<in> set ne_hill_states"
      by (simp add: ne_hill_states_def)
  qed
  have g: "\<not> (\<exists>s \<in> set ne_hill_states. \<exists>pre suf.
      ascii_lower (state gujarat_trader) = pre @ s @ suf)"
    unfolding sg by (rule gujarat_no_match)
  have ts: "business_type sikkim_trader \<in> {''manufacturer'', ''trader'', ''restaurant''}"
    unfolding bs by simp
  have tg: "business_type gujarat_trader \<in> {''manufacturer'', ''trader'', ''restaurant''}"
    unfolding bg by simp
  have six: "\<exists>r v. assess_scheme_eligibility iso_to_datetime ascii_lower sikkim_trader
               sikkim_metrics = Inr r \<and> r ''gst_composition'' = Some v \<and> eligible v"
  proof (rule gst_composition_rule [of iso_to_datetime ascii_lower sikkim_trader sikkim_metrics,
        THEN conjunct2, THEN conjunct2, THEN conjunct2, THEN mp, OF h, THEN iffD2])
    have "annual_turnover sikkim_metrics < 7500000" unfolding t6 by simp
    then have "annual_turnover sikkim_metrics
       < (if \<exists>s \<in> set ne_hill_states. \<exists>pre mid suf.
               state sikkim_trader = pre @ mid @ suf \<and> list_all2 same_letter mid s
          then 7500000 else 15000000)"
      unfolding if_P [OF s] .
    with ts show "business_type sikkim_trader \<in> {''manufacturer'', ''trader'', ''restaurant''}
       \<and> annual_turnover sikkim_metrics
       < (if \<exists>s \<in> set ne_hill_states. \<exists>pre mid suf.
               state sikkim_trader = pre @ mid @ suf \<and> list_all2 same_letter mid s
          then 7500000 else 15000000)"
      by (rule conjI)
  qed
  have eight: "\<not> (\<exists>r v. assess_scheme_eligibility iso_to_datetime ascii_lower sikkim_trader
               metrics_8m = Inr r \<and> r ''gst_composition'' = Some v \<and> eligible v)"
  proof
    assume "\<exists>r v. assess_scheme_eligibility iso_to_datetime ascii_lower sikkim_trader
               metrics_8m = Inr r \<and> r ''gst_composition'' = Some v \<and> eligible v"
    then have "business_type sikkim_trader \<in> {''manufacturer'', ''trader'', ''restaurant''}
       \<and> annual_turnover metrics_8m
       < (if \<exists>s \<in> set ne_hill_states. \<exists>pre mid suf.
               state sikkim_trader = pre @ mid @ suf \<and> list_all2 same_letter mid s
          then 7500000 else 15000000)"
      by (rule gst_composition_rule [of iso_to_datetime ascii_lower sikkim_trader metrics_8m,
        THEN conjunct2, THEN conjunct2, THEN conjunct2, THEN mp, OF h, THEN iffD1])
    then have "annual_turnover metrics_8m < 7500000"
      unfolding if_P [OF s] by (rule conjunct2)
    then show False unfolding t8 by simp
  qed
  have guj: "\<exists>r v. assess_scheme_eligibility iso_to_datetime ascii_lower gujarat_trader
               metrics_8m = Inr r \<and> r ''gst_composition'' = Some v \<and> eligible v"
  proof (rule gst_composition_rule [of iso_to_datetime ascii_lower gujarat_trader metrics_8m,
        THEN conjunct2, THEN conjunct1, THEN iffD2])
    have "annual_turnover metrics_8m < 15000000" unfolding t8 by simp
    then have "annual_turnover metrics_8m
       < (if \<exists>s \<in> set ne_hill_states. \<exists>pre suf.
               ascii_lower (state gujarat_trader) = pre @ s @ suf
          then 7500000 else 15000000)"
      unfolding if_not_P [OF g] .
    with tg show "business_type gujarat_trader \<in> {''manufacturer'', ''trader'', ''restaurant''}
       \<and> annual_turnover metrics_8m
       < (if \<exists>s \<in> set ne_hill_states. \<exists>pre suf.
               ascii_lower (state gujarat_trader) = pre @ s @ suf
          then 7500000 else 15000000)"
      by (rule conjI)
  qed
  from h bs ss bg sg t6 t8 six eight guj show ?thesis
    by (intro conjI)
qed

text \<open>
  Claim C3, as stated, fails. The catalog has nine scheme keys and the claim asks for one
  verdict per catalog key; for the trader of Sikkim the evaluator returns, and
  \<^verbatim>\<open>epcg\<close>, \<^verbatim>\<open>nsic_support\<close> and \<^verbatim>\<open>income_tax_deduction\<close>, all three keys
  of the catalog, have no verdict in the returned dictionary.
\<close>

theorem no_verdict_for_three_catalog_schemes:
  "\<not> isl (assess_scheme_eligibility iso_to_datetime ascii_lower sikkim_trader sikkim_metrics)
   \<and> projr (assess_scheme_eligibility iso_to_datetime ascii_lower sikkim_trader sikkim_metrics) ''epcg''
       = None
   \<and> projr (assess_scheme_eligibility iso_to_datetime ascii_lower sikkim_trader sikkim_metrics)
       ''nsic_support'' = None
   \<and> projr (assess_scheme_eligibility iso_to_datetime ascii_lower sikkim_trader sikkim_metrics)
       ''income_tax_deduction'' = None
   \<and> map_of schemes ''epcg'' \<noteq> None
   \<and> map_of schemes ''nsic_support'' \<noteq> None
   \<and> map_of schemes ''income_tax_deduction'' \<noteq> None
   \<and> length schemes = 9"
proof -
  have "business_type sikkim_trader \<noteq> ''startup''"
    by (simp add: sikkim_trader_def)
  from startup_not_startup [OF this] obtain v3 where
    "startup_tax_benefits iso_to_datetime sikkim_trader sikkim_metrics = Inr v3"
    by blast
  from assess_startup_ok [OF this, where lw = ascii_lower] obtain v1 v2 v4 v5 v6 where
    "assess_scheme_eligibility iso_to_datetime ascii_lower sikkim_trader sikkim_metrics =
       Inr [''advance_authorisation'' \<mapsto> v1, ''pmmy_loans'' \<mapsto> v2,
            ''startup_tax_benefits'' \<mapsto> v3, ''digital_lending'' \<mapsto> v4,
            ''gem_platform'' \<mapsto> v5, ''gst_composition'' \<mapsto> v6]"
    by blast
  then show ?thesis by (simp add: schemes_def)
qed

text \<open>
  Claim C3, amended. Whenever the evaluator returns, the returned dictionary has exactly
  one verdict for each of the six scheme keys that have a rule (\<^verbatim>\<open>advance_authorisation\<close>,
  \<^verbatim>\<open>pmmy_loans\<close>, \<^verbatim>\<open>startup_tax_benefits\<close>, \<^verbatim>\<open>digital_lending\<close>,
  \<^verbatim>\<open>gem_platform\<close>, \<^verbatim>\<open>gst_composition\<close>), all of them catalog keys, and none for
  \<^verbatim>\<open>epcg\<close>, \<^verbatim>\<open>nsic_support\<close> and \<^verbatim>\<open>income_tax_deduction\<close>. It returns whenever
  the business type is not \<^verbatim>\<open>startup\<close>, and whenever the incorporation date parses to
  a timestamp without time zone or to \<^verbatim>\<open>NaT\<close>.
\<close>

theorem verdicts_for_the_six_rule_keys:
  "(\<forall>r. assess_scheme_eligibility to_datetime str_lower p m = Inr r \<longrightarrow>
      dom r = {''advance_authorisation'', ''pmmy_loans'', ''startup_tax_benefits'',
               ''digital_lending'', ''gem_platform'', ''gst_composition''}
    \<and> dom r \<subseteq> set (map fst schemes)
    \<and> r ''epcg'' = None \<and> r ''nsic_support'' = None \<and> r ''income_tax_deduction'' = None)
   \<and> (business_type p \<noteq> ''startup''
        \<or> (\<exists>d. to_datetime (incorporation_date p) = Inr d \<and> (\<forall>t. d \<noteq> TimestampTZ t))
      \<longrightarrow> (\<exists>r. assess_scheme_eligibility to_datetime str_lower p m = Inr r))"
proof (intro conjI allI impI)
  fix r assume r: "assess_scheme_eligibility to_datetime str_lower p m = Inr r"
  note d = assess_dom [OF r]
  show "dom r = {''advance_authorisation'', ''pmmy_loans'', ''startup_tax_benefits'',
               ''digital_lending'', ''gem_platform'', ''gst_composition''}"
    by (rule d)
  show "dom r \<subseteq> set (map fst schemes)"
    unfolding d schemes_keys by simp
  have "''epcg'' \<notin> dom r" "''nsic_support'' \<notin> dom r" "''income_tax_deduction'' \<notin> dom r"
    unfolding d by simp_all
  then show "r ''epcg'' = None" "r ''nsic_support'' = None" "r ''income_tax_deduction'' = None"
    by (simp_all add: domIff)
next
  assume "business_type p \<noteq> ''startup''
        \<or> (\<exists>d. to_datetime (incorporation_date p) = Inr d \<and> (\<forall>t. d \<noteq> TimestampTZ t))"
  then show "\<exists>r. assess_scheme_eligibility to_datetime str_lower p m = Inr r"
    by (rule assess_returns)
qed

theorem verdicts_for_the_six_rule_keys_witness:
  "business_type sikkim_trader \<noteq> ''startup''
   \<and> (\<exists>r. assess_scheme_eligibility iso_to_datetime ascii_lower sikkim_trader sikkim_metrics = Inr r
        \<and> dom r = {''advance_authorisation'', ''pmmy_loans'', ''startup_tax_benefits'',
               ''digital_lending'', ''gem_platform'', ''gst_composition''})"
proof -
  note c = verdicts_for_the_six_rule_keys [of iso_to_datetime ascii_lower sikkim_trader sikkim_metrics]
  have h: "business_type sikkim_trader \<noteq> ''startup''"
    by (simp add: sikkim_trader_def)
  have "\<exists>r. assess_scheme_eligibility iso_to_datetime ascii_lower sikkim_trader sikkim_metrics = Inr r"
    by (rule c [THEN conjunct2, rule_format], rule disjI1, rule h)
  then obtain r where
    r: "assess_scheme_eligibility iso_to_datetime ascii_lower sikkim_trader sikkim_metrics = Inr r" ..
  have "dom r = {''advance_authorisation'', ''pmmy_loans'', ''startup_tax_benefits'',
               ''digital_lending'', ''gem_platform'', ''gst_composition''}"
    by (rule c [THEN conjunct1, rule_format, OF r, THEN conjunct1])
  with r have "\<exists>r. assess_scheme_eligibility iso_to_datetime ascii_lower sikkim_trader sikkim_metrics = Inr r
        \<and> dom r = {''advance_authorisation'', ''pmmy_loans'', ''startup_tax_benefits'',
               ''digital_lending'', ''gem_platform'', ''gst_composition''}"
    by (intro exI conjI)
  with h show ?thesis by (rule conjI)
qed

lemma iso_not_a_date:
  "iso_to_datetime ''not-a-date''
     = Inl (ValueError ''Unknown datetime string format, unable to parse: not-a-date'')"
  by (simp add: iso_to_datetime_def)

text \<open>
  Claim C2. For a startup whose incorporation date does not parse, the claim asks for an
  ineligible \<open>startup_tax_benefits\<close> verdict. The parse of line 269 is outside any
  \<^verbatim>\<open>try\<close>: on the date \<^verbatim>\<open>not-a-date\<close> the evaluator raises the parser's
  \<^verbatim>\<open>ValueError\<close> and returns no verdict at all.
\<close>

theorem startup_unparsable_date_raises:
  "assess_scheme_eligibility iso_to_datetime ascii_lower startup_unparsable example_metrics
     = Inl (ValueError ''Unknown datetime string format, unable to parse: not-a-date'')"
proof -
  have "startup_tax_benefits iso_to_datetime startup_unparsable example_metrics
     = Inl (ValueError ''Unknown datetime string format, unable to parse: not-a-date'')"
    by (rule startup_parse_error) (simp_all add: startup_unparsable_def iso_not_a_date)
  then show ?thesis by (rule assess_startup_error)
qed

text \<open>
  The credit score, whose date parse is inside a \<^verbatim>\<open>try\<close> (lines 393--405), gives the
  same profile its 25 default points.
\<close>

lemma vintage_points_unparsable:
  "vintage_points iso_to_datetime now startup_unparsable = 25"
  by (simp add: vintage_points_def startup_unparsable_def iso_not_a_date)

section \<open>The loan assessment and the clock\<close>

lemma vintage_2020_08: "vintage_points iso_to_datetime clock_2020_08_01 sikkim_trader = 25"
  by code_simp

lemma vintage_2026_11: "vintage_points iso_to_datetime clock_2026_11_03 sikkim_trader = 100"
  by code_simp

lemma vintage_2027_01: "vintage_points iso_to_datetime clock_2027_01_01 sikkim_trader = 100"
  by code_simp

lemma score_2020_08:
  "fst (calculate_credit_score iso_to_datetime clock_2020_08_01 sikkim_trader example_metrics)
     = 655"
  by (simp add: calculate_credit_score_def vintage_2020_08 example_metrics_def
      turnover_points_def filing_points_def stability_points_def)

lemma score_2026_11:
  "fst (calculate_credit_score iso_to_datetime clock_2026_11_03 sikkim_trader example_metrics)
     = 730"
  by (simp add: calculate_credit_score_def vintage_2026_11 example_metrics_def
      turnover_points_def filing_points_def stability_points_def)

text \<open>
  Claim C4, as stated, fails. The credit score reads the clock (\<^verbatim>\<open>datetime.now()\<close>,
  line 395): the same profile, incorporated on 2020-01-01, and the same metrics give the
  credit score 655 on 2020-08-01 and 730 on 2026-11-03, hence two different loan
  assessments.
\<close>

theorem loan_assessment_depends_on_clock:
  "credit_score (calculate_loan_eligibility iso_to_datetime clock_2020_08_01
       sikkim_trader example_metrics) = 655
   \<and> credit_score (calculate_loan_eligibility iso_to_datetime clock_2026_11_03
       sikkim_trader example_metrics) = 730
   \<and> calculate_loan_eligibility iso_to_datetime clock_2020_08_01 sikkim_trader example_metrics
     \<noteq> calculate_loan_eligibility iso_to_datetime clock_2026_11_03 sikkim_trader example_metrics"
proof -
  have a: "credit_score (calculate_loan_eligibility iso_to_datetime clock_2020_08_01
       sikkim_trader example_metrics) = 655"
    by (simp only: loan_credit_score score_2020_08)
  have b: "credit_score (calculate_loan_eligibility iso_to_datetime clock_2026_11_03
       sikkim_trader example_metrics) = 730"
    by (simp only: loan_credit_score score_2026_11)
  have "calculate_loan_eligibility iso_to_datetime clock_2020_08_01 sikkim_trader example_metrics
     \<noteq> calculate_loan_eligibility iso_to_datetime clock_2026_11_03 sikkim_trader example_metrics"
  proof
    assume "calculate_loan_eligibility iso_to_datetime clock_2020_08_01 sikkim_trader
        example_metrics
      = calculate_loan_eligibility iso_to_datetime clock_2026_11_03 sikkim_trader example_metrics"
    then have "credit_score (calculate_loan_eligibility iso_to_datetime clock_2020_08_01
         sikkim_trader example_metrics)
      = credit_score (calculate_loan_eligibility iso_to_datetime clock_2026_11_03
         sikkim_trader example_metrics)"
      by (rule arg_cong)
    with a b show False by simp
  qed
  with a b show ?thesis by (intro conjI)
qed

text \<open>
  Claim C4, amended. The loan assessment is a function of the profile, the metrics and
  the clock, and of the clock only through the business-vintage points of the credit
  score: two invocations with identical profile and metrics whose clock readings give the
  same vintage points return the identical loan assessment.
\<close>

theorem loan_assessment_same_vintage:
  assumes "vintage_points to_datetime now1 p = vintage_points to_datetime now2 p"
  shows "calculate_loan_eligibility to_datetime now1 p m
       = calculate_loan_eligibility to_datetime now2 p m"
proof -
  from assms have "calculate_credit_score to_datetime now1 p m
      = calculate_credit_score to_datetime now2 p m"
    by (simp only: calculate_credit_score_def)
  then show ?thesis
    by (simp only: calculate_loan_eligibility_def)
qed

theorem loan_assessment_same_vintage_witness:
  "vintage_points iso_to_datetime clock_2026_11_03 sikkim_trader
     = vintage_points iso_to_datetime clock_2027_01_01 sikkim_trader
   \<and> calculate_loan_eligibility iso_to_datetime clock_2026_11_03 sikkim_trader example_metrics
     = calculate_loan_eligibility iso_to_datetime clock_2027_01_01 sikkim_trader example_metrics"
proof -
  have h: "vintage_points iso_to_datetime clock_2026_11_03 sikkim_trader
     = vintage_points iso_to_datetime clock_2027_01_01 sikkim_trader"
    by (simp only: vintage_2026_11 vintage_2027_01)
  from h loan_assessment_same_vintage [OF h] show ?thesis by (rule conjI)
qed

section \<open>The monthly analysis and the parsers\<close>

text \<open>
  A non-empty B2B table without \<^verbatim>\<open>Invoice Value\<close> makes line 81 raise, whatever the
  other tables are.
\<close>

lemma analyze_missing_invoice_value:
  assumes "\<not> df_empty b2b_df" and "''Invoice Value'' \<notin> set (columns b2b_df)"
  shows "analyze_monthly_data month_name b2b_df b2c_df purchase_df
           = Inl (KeyError ''Invoice Value'')"
proof -
  from assms(2) have "map_of (cols b2b_df) ''Invoice Value'' = None"
    by (simp add: columns_def map_of_eq_None_iff)
  then have "df_getitem b2b_df ''Invoice Value'' = Inl (KeyError ''Invoice Value'')"
    by (simp add: df_getitem_def getitem_def)
  with assms(1) show ?thesis
    by (simp add: analyze_monthly_data_def bind_err_def)
qed

text \<open>
  Claim C1. The claim asks that an absent consumed column is skipped without an error.
  The reads of \<^verbatim>\<open>Invoice Value\<close> in the B2B table (line 81) and of
  \<^verbatim>\<open>Taxable Value\<close> in the B2C table (line 101) are not guarded: on a non-empty B2B
  table without \<^verbatim>\<open>Invoice Value\<close>, and on a non-empty B2C table without
  \<^verbatim>\<open>Taxable Value\<close>, the analysis raises \<^verbatim>\<open>KeyError\<close>.
\<close>

theorem analyze_monthly_data_missing_column_raises:
  "analyze_monthly_data ''Month 1'' b2b_without_invoice_value empty_dataframe empty_dataframe
     = Inl (KeyError ''Invoice Value'')
   \<and> analyze_monthly_data ''Month 1'' example_b2b b2c_without_taxable_value empty_dataframe
     = Inl (KeyError ''Taxable Value'')"
  by code_simp

text \<open>The guarded columns are skipped: the same B2B table without rates and recipients.\<close>

lemma analyze_guarded_columns_skipped:
  "analyze_monthly_data ''Month 1''
     \<lparr> nrows = 2, cols = [(''Invoice Value'', [Num 60000, Num 40000])] \<rparr>
     empty_dataframe empty_dataframe
   = Inr (example_month \<lparr> gst_collected := 0, tax_rates_used := [], unique_customers := 0 \<rparr>)"
  by code_simp

text \<open>\<^verbatim>\<open>strip\<close> leaves a stripped string as it is.\<close>

lemma strip_idem: "strip (strip s) = strip s"
proof -
  define a where "a = dropWhile is_space s"
  define b where "b = rev (dropWhile is_space (rev a))"
  have ab: "a = b @ rev (takeWhile is_space (rev a))"
  proof -
    have "b @ rev (takeWhile is_space (rev a))
        = rev (takeWhile is_space (rev a) @ dropWhile is_space (rev a))"
      by (simp only: rev_append b_def)
    also have "\<dots> = rev (rev a)" by (simp only: takeWhile_dropWhile_id)
    finally show ?thesis by simp
  qed
  have "dropWhile is_space b = b"
  proof (cases "b = []")
    case True then show ?thesis by simp
  next
    case False
    with ab have "hd a = hd b" by (metis hd_append2)
    moreover from False ab have "a \<noteq> []" by auto
    then have "\<not> is_space (hd a)" unfolding a_def by (rule hd_dropWhile)
    ultimately show ?thesis by (simp add: dropWhile_eq_self_iff)
  qed
  then have "strip b = rev (dropWhile is_space (rev b))" by (simp add: strip_def)
  also have "\<dots> = b" by (simp add: b_def)
  finally show ?thesis by (simp add: strip_def a_def b_def)
qed

text \<open>The two sales parsers return trimmed column names, for every reader and content.\<close>

lemma sales_parsers_trimmed:
  "\<forall>n \<in> set (columns (fst (parse_b2b_file read_csv content))). strip n = n"
  "\<forall>n \<in> set (columns (fst (parse_b2c_file read_csv content))). strip n = n"
  by (auto simp: parse_b2b_file_def parse_b2c_file_def columns_def strip_columns_def
      empty_dataframe_def strip_idem split: sum.splits)

text \<open>The purchase parser returns the reader's table as it is.\<close>

lemma purchase_parser_unchanged:
  "prefix ''GSTIN'' content \<Longrightarrow> read_csv content = Inr df \<Longrightarrow>
   parse_purchase_file read_csv read_excel content = (df, [])"
  by (simp add: parse_purchase_file_def)

text \<open>
  Claim C5. The claim asks that every column name of a parsed table is trimmed.
  \<^verbatim>\<open>parse_purchase_file\<close> does not strip the names (lines 44--56): on a purchase file
  whose header is \<^verbatim>\<open>GSTIN , Taxable Value \<close> it returns, without diagnostic, the
  columns \<^verbatim>\<open>'GSTIN '\<close> and \<^verbatim>\<open>' Taxable Value '\<close>, which \<^verbatim>\<open>strip\<close> would change;
  \<^verbatim>\<open>parse_b2b_file\<close> on the same content returns the trimmed names.
\<close>

theorem purchase_columns_not_trimmed:
  "columns (fst (parse_purchase_file csv_reader no_excel purchase_csv))
     = [''GSTIN '', '' Taxable Value '']
   \<and> snd (parse_purchase_file csv_reader no_excel purchase_csv) = []
   \<and> strip ''GSTIN '' = ''GSTIN''
   \<and> strip '' Taxable Value '' = ''Taxable Value''
   \<and> columns (fst (parse_b2b_file csv_reader purchase_csv)) = [''GSTIN'', ''Taxable Value'']"
  by code_simp

end
